theory Spec2Isabelle
  imports Complex_Main "HOL-Library.AList"
begin

section \<open>JavaScript values\<close>

text \<open>
  The client is TypeScript compiled to JavaScript: at run time every request body,
  response and thrown value is an untyped JavaScript value. \<open>jv\<close> is that universe.
  Numbers are modelled exactly (rationals); IEEE rounding and the infinities are not
  modelled, \<open>JNaN\<close> is the not-a-number value. \<open>JErr m\<close> is an \<open>Error\<close> instance with
  message \<open>m\<close> (\<open>new Error(m)\<close>, or an engine \<open>TypeError\<close>); \<open>JBuiltin n\<close> is a built-in
  object of the engine (the \<open>Object\<close> constructor, \<open>Object.prototype\<close>). An object is
  the association list of its own enumerable properties.
\<close>

datatype jv =
    JUndef
  | JNull
  | JBool bool
  | JNum rat
  | JNaN
  | JStr string
  | JArr "jv list"
  | JObj "(string \<times> jv) list"
  | JErr string
  | JBuiltin string

type_synonym obj = "(string \<times> jv) list"

text \<open>Truthiness, as \<open>if (v)\<close>, \<open>!v\<close> and \<open>a || b\<close> read a value.\<close>

fun truthy :: "jv \<Rightarrow> bool" where
  "truthy JUndef = False"
| "truthy JNull = False"
| "truthy (JBool b) = b"
| "truthy (JNum n) = (n \<noteq> 0)"
| "truthy JNaN = False"
| "truthy (JStr s) = (s \<noteq> [])"
| "truthy (JArr xs) = True"
| "truthy (JObj kvs) = True"
| "truthy (JErr m) = True"
| "truthy (JBuiltin n) = True"

definition jor :: "jv \<Rightarrow> jv \<Rightarrow> jv" where
  "jor a b = (if truthy a then a else b)"

definition nullish :: "jv \<Rightarrow> bool" where
  "nullish v = (v = JUndef \<or> v = JNull)"

text \<open>
  \<open>jget v k\<close> is \<open>v?.k\<close>: the own property \<open>k\<close> of \<open>v\<close>, \<open>undefined\<close> when \<open>v\<close> has none.
  Every property name the program reads with a fixed name (success, payload, id,
  message, data, response, ...) is absent from the built-in prototypes, so the
  prototype chain plays no part in these reads; the one read with a computed key,
  in \<open>CreativeResource.create\<close>, is modelled with the chain (\<open>typeMap_lookup\<close>).
  A plain \<open>v.k\<close> on \<open>null\<close> or \<open>undefined\<close> throws a \<open>TypeError\<close>: \<open>getp\<close>.
\<close>

fun jget :: "jv \<Rightarrow> string \<Rightarrow> jv" where
  "jget (JObj kvs) k = (case map_of kvs k of Some v \<Rightarrow> v | None \<Rightarrow> JUndef)"
| "jget (JErr m) k = (if k = ''message'' then JStr m else JUndef)"
| "jget v k = JUndef"

definition type_error :: jv where
  "type_error = JErr ''TypeError''"

definition getp :: "jv \<Rightarrow> string \<Rightarrow> jv + jv" where
  "getp v k = (if nullish v then Inl type_error else Inr (jget v k))"

text \<open>\<open>v?.[0]\<close> on a value that is not nullish.\<close>

fun first_elem :: "jv \<Rightarrow> jv" where
  "first_elem (JArr (x # xs)) = x"
| "first_elem (JStr (c # cs)) = JStr [c]"
| "first_elem (JObj kvs) = jget (JObj kvs) ''0''"
| "first_elem v = JUndef"

text \<open>
  The own enumerable properties an object spread \<open>{...v}\<close> copies. Spreading
  \<open>undefined\<close>, \<open>null\<close>, a number or a boolean copies nothing. The index properties
  of an array or a string are left out of the model: the program spreads request
  bodies and records only.
\<close>

fun own_props :: "jv \<Rightarrow> obj" where
  "own_props (JObj kvs) = kvs"
| "own_props v = []"

text \<open>The values a \<open>for ... of\<close> loop or a spread \<open>...v\<close> in a call visits; \<open>None\<close> when
  \<open>v\<close> is not iterable (a \<open>TypeError\<close>).\<close>

fun iter :: "jv \<Rightarrow> jv list option" where
  "iter (JArr xs) = Some xs"
| "iter (JStr s) = Some (map (\<lambda>c. JStr [c]) s)"
| "iter v = None"

text \<open>\<open>isPOJO\<close> of \<open>utils/helpers.ts\<close>: \<open>!!(value && value.constructor === Object)\<close>.
  An object literal or a parsed JSON object inherits \<open>constructor\<close> from
  \<open>Object.prototype\<close> unless it has an own property of that name.\<close>

fun isPOJO :: "jv \<Rightarrow> bool" where
  "isPOJO (JObj kvs) =
     (case map_of kvs ''constructor'' of None \<Rightarrow> True | Some c \<Rightarrow> c = JBuiltin ''Object'')"
| "isPOJO v = False"

text \<open>ASCII case conversion (\<open>toLowerCase\<close>, \<open>toUpperCase\<close> on the letters A to Z).\<close>

definition lower_char :: "char \<Rightarrow> char" where
  "lower_char c =
     (case map_of (zip ''ABCDEFGHIJKLMNOPQRSTUVWXYZ'' ''abcdefghijklmnopqrstuvwxyz'') c of
        Some l \<Rightarrow> l | None \<Rightarrow> c)"

definition upper_char :: "char \<Rightarrow> char" where
  "upper_char c =
     (case map_of (zip ''abcdefghijklmnopqrstuvwxyz'' ''ABCDEFGHIJKLMNOPQRSTUVWXYZ'') c of
        Some u \<Rightarrow> u | None \<Rightarrow> c)"

definition toLowerCase :: "string \<Rightarrow> string" where
  "toLowerCase s = map lower_char s"

definition toUpperCase :: "string \<Rightarrow> string" where
  "toUpperCase s = map upper_char s"

text \<open>
  Built-in conversions the program calls and this development does not re-implement
  are parameters: \<open>JSON.stringify\<close> (a string, or \<open>undefined\<close> as \<open>None\<close>),
  \<open>String(v)\<close> as template literals and \<open>toString\<close> apply it, and the numeric
  conversion of a value that is not a number.
\<close>

record host =
  json_stringify :: "jv \<Rightarrow> string option"
  to_string :: "jv \<Rightarrow> string"
  to_number :: "jv \<Rightarrow> jv"

definition new_Error :: "string option \<Rightarrow> jv" where
  "new_Error m = JErr (case m of Some s \<Rightarrow> s | None \<Rightarrow> [])"

section \<open>BeeswaxClient.request\<close>

text \<open>
  An asynchronous operation is a function of the state of the world outside the
  function (the remote API, the session) that returns what the awaited promise
  settles to, \<open>Inl\<close> a thrown value (rejection) or \<open>Inr\<close> the result, and the new state.
  \<open>'w axios\<close> stands for \<open>this.axiosInstance.request(config)\<close>: any behaviour at all, so
  a theorem for every \<open>ax\<close> holds for the instance with its interceptors.
\<close>

type_synonym ('a, 'w) async = "'w \<Rightarrow> (jv + 'a) \<times> 'w"

type_synonym 'w axios = "jv \<Rightarrow> (jv, 'w) async"

record req_options =
  opt_body :: jv
  opt_params :: jv
  opt_headers :: jv

definition body_only :: "jv \<Rightarrow> req_options" where
  "body_only b = \<lparr>opt_body = b, opt_params = JUndef, opt_headers = JUndef\<rparr>"

text \<open>The \<open>catch\<close> block of \<open>request\<close>:
  \<open>if (error.response?.data) throw error.response.data; throw error\<close>.\<close>

definition request_catch :: "jv \<Rightarrow> jv" where
  "request_catch error =
     (if nullish error then type_error
      else if truthy (jget (jget error ''response'') ''data'')
        then jget (jget error ''response'') ''data''
      else error)"

definition request_config :: "string \<Rightarrow> string \<Rightarrow> req_options \<Rightarrow> jv" where
  "request_config method endpoint opts =
     (let config = [(''method'', JStr method), (''url'', JStr endpoint),
                    (''headers'', opt_headers opts)]
      in if toUpperCase method = ''GET''
         then JObj (config @ [(''params'', jor (opt_body opts) (opt_params opts))])
         else JObj (config @ [(''data'', opt_body opts), (''params'', opt_params opts)]))"

definition request ::
  "host \<Rightarrow> 'w axios \<Rightarrow> string \<Rightarrow> string \<Rightarrow> req_options \<Rightarrow> (jv, 'w) async" where
  "request h ax method endpoint opts w =
     (case ax (request_config method endpoint opts) w of
        (Inl error, w') \<Rightarrow> (Inl (request_catch error), w')
      | (Inr response, w') \<Rightarrow>
          (if nullish response \<or> nullish (jget response ''data'')
             then (Inl (request_catch type_error), w')
           else if jget (jget response ''data'') ''success'' = JBool False
             then (Inl (request_catch
                     (new_Error (json_stringify h (jget response ''data'')))), w')
           else (Inr (jget response ''data''), w')))"

section \<open>BaseResource\<close>

record resource =
  endpoint :: string
  idField :: string

definition ok_response :: "jv \<Rightarrow> jv" where
  "ok_response p = JObj [(''success'', JBool True), (''payload'', p)]"

definition BaseResource_find :: "host \<Rightarrow> 'w axios \<Rightarrow> resource \<Rightarrow> jv \<Rightarrow> (jv, 'w) async" where
  "BaseResource_find h ax r ident w =
     (case request h ax ''GET'' (endpoint r) (body_only (JObj [(idField r, ident)])) w of
        (Inl e, w') \<Rightarrow> (Inl e, w')
      | (Inr response, w') \<Rightarrow>
          (Inr (ok_response (first_elem (jget response ''payload''))), w'))"

definition BaseResource_query :: "host \<Rightarrow> 'w axios \<Rightarrow> resource \<Rightarrow> jv \<Rightarrow> (jv, 'w) async" where
  "BaseResource_query h ax r body w =
     (case request h ax ''GET'' (endpoint r) (body_only (jor body (JObj []))) w of
        (Inl e, w') \<Rightarrow> (Inl e, w')
      | (Inr response, w') \<Rightarrow>
          (Inr (ok_response (jor (jget response ''payload'') (JArr []))), w'))"

definition batchSize :: nat where
  "batchSize = 50"

definition queryBody :: "resource \<Rightarrow> jv \<Rightarrow> nat \<Rightarrow> jv" where
  "queryBody r body offset =
     JObj (AList.update ''sort_by'' (JStr (idField r))
            (AList.update ''offset'' (JNum (of_nat offset))
              (AList.update ''rows'' (JNum (of_nat batchSize)) (own_props body))))"

text \<open>The \<open>while (true)\<close> loop of \<open>queryAll\<close>; \<open>None\<close> is a loop that never ends.\<close>

partial_function (option) queryAll_loop ::
  "host \<Rightarrow> 'w axios \<Rightarrow> resource \<Rightarrow> jv \<Rightarrow> jv list \<Rightarrow> nat \<Rightarrow> 'w \<Rightarrow> ((jv + jv list) \<times> 'w) option"
where
  "queryAll_loop h ax r body results offset w =
     (case request h ax ''GET'' (endpoint r) (body_only (queryBody r body offset)) w of
        (Inl e, w') \<Rightarrow> Some (Inl e, w')
      | (Inr response, w') \<Rightarrow>
          (case iter (jor (jget response ''payload'') (JArr [])) of
             None \<Rightarrow> Some (Inl type_error, w')
           | Some batch \<Rightarrow>
               if length batch < batchSize then Some (Inr (results @ batch), w')
               else queryAll_loop h ax r body (results @ batch) (offset + batchSize) w'))"

definition BaseResource_queryAll ::
  "host \<Rightarrow> 'w axios \<Rightarrow> resource \<Rightarrow> jv \<Rightarrow> 'w \<Rightarrow> ((jv + jv) \<times> 'w) option" where
  "BaseResource_queryAll h ax r body w =
     (case queryAll_loop h ax r body [] 0 w of
        None \<Rightarrow> None
      | Some (Inl e, w') \<Rightarrow> Some (Inl e, w')
      | Some (Inr results, w') \<Rightarrow> Some (Inr (ok_response (JArr results)), w'))"

definition bad_body_response :: jv where
  "bad_body_response =
     JObj [(''success'', JBool False), (''code'', JNum 400),
           (''message'', JStr ''Body must be non-empty object'')]"

definition BaseResource_create :: "host \<Rightarrow> 'w axios \<Rightarrow> resource \<Rightarrow> jv \<Rightarrow> (jv, 'w) async" where
  "BaseResource_create h ax r body w =
     (if \<not> isPOJO body \<or> own_props body = [] then (Inr bad_body_response, w)
      else case request h ax ''POST'' (endpoint r @ ''/strict'') (body_only body) w of
        (Inl e, w') \<Rightarrow> (Inl e, w')
      | (Inr response, w') \<Rightarrow>
          if truthy (jget response ''success'')
             \<and> truthy (jget (jget response ''payload'') ''id'')
          then BaseResource_find h ax r (jget (jget response ''payload'') ''id'') w'
          else (Inr response, w'))"

section \<open>The resources\<close>

definition campaign_resource :: resource where
  "campaign_resource = \<lparr>endpoint = ''/rest/campaign'', idField = ''campaign_id''\<rparr>"

definition line_item_resource :: resource where
  "line_item_resource = \<lparr>endpoint = ''/rest/line_item'', idField = ''line_item_id''\<rparr>"

definition creative_resource :: resource where
  "creative_resource = \<lparr>endpoint = ''/rest/creative'', idField = ''creative_id''\<rparr>"

definition creative_line_item_resource :: resource where
  "creative_line_item_resource = \<lparr>endpoint = ''/rest/creative_line_item'', idField = ''cli_id''\<rparr>"

definition targeting_template_resource :: resource where
  "targeting_template_resource =
     \<lparr>endpoint = ''/rest/targeting_template'', idField = ''targeting_template_id''\<rparr>"

definition report_resource :: resource where
  "report_resource = \<lparr>endpoint = ''/rest/report'', idField = ''report_id''\<rparr>"

subsection \<open>CampaignResource.create\<close>

text \<open>The body \<open>CampaignResource.create\<close> hands to \<open>super.create\<close>: \<open>budget_type\<close> defaults
  to 2, a name goes under \<open>campaign_name\<close> and a budget under \<open>campaign_budget\<close>, the
  legacy key winning when both are given, and the aliases \<open>name\<close> and \<open>budget\<close> are deleted.\<close>

definition campaign_create_body :: "jv \<Rightarrow> obj" where
  "campaign_create_body body =
     (let d0 = AList.update ''budget_type''
                 (if jget body ''budget_type'' \<noteq> JUndef then jget body ''budget_type''
                  else JNum 2)
                 (own_props body);
          d1 = (if truthy (jor (jget body ''name'') (jget body ''campaign_name''))
                then AList.delete ''name''
                       (AList.update ''campaign_name''
                          (jor (jget body ''campaign_name'') (jget body ''name'')) d0)
                else d0);
          d2 = (if jget body ''budget'' \<noteq> JUndef \<or> jget body ''campaign_budget'' \<noteq> JUndef
                then AList.delete ''budget''
                       (AList.update ''campaign_budget''
                          (if jget body ''campaign_budget'' \<noteq> JUndef
                           then jget body ''campaign_budget'' else jget body ''budget'') d1)
                else d1)
      in d2)"

definition CampaignResource_create :: "host \<Rightarrow> 'w axios \<Rightarrow> jv \<Rightarrow> (jv, 'w) async" where
  "CampaignResource_create h ax body w =
     (if nullish body then (Inl type_error, w)
      else BaseResource_create h ax campaign_resource (JObj (campaign_create_body body)) w)"

subsection \<open>LineItemResource.create\<close>

definition line_item_create_body :: "jv \<Rightarrow> obj" where
  "line_item_create_body body =
     (let d0 = own_props body;
          d1 = (if truthy (jget body ''line_item_name'') \<and> \<not> truthy (jget (JObj d0) ''name'')
                then AList.delete ''line_item_name''
                       (AList.update ''name'' (jget body ''line_item_name'') d0)
                else d0);
          d2 = (if truthy (jget body ''line_item_type'') \<and> \<not> truthy (jget (JObj d1) ''type'')
                then AList.delete ''line_item_type''
                       (AList.update ''type'' (jget body ''line_item_type'') d1)
                else d1);
          d3 = (if jget body ''line_item_budget'' \<noteq> JUndef \<and> \<not> truthy (jget (JObj d2) ''budget'')
                then AList.delete ''line_item_budget''
                       (AList.update ''budget'' (jget body ''line_item_budget'') d2)
                else d2);
          d4 = (if \<not> truthy (jget (JObj d3) ''type'')
                then AList.update ''type'' (JStr ''banner'') d3 else d3);
          d5 = AList.update ''id'' JNull d4;
          d6 = AList.delete ''line_item_id'' d5;
          d7 = (if \<not> truthy (jget (JObj d6) ''spend_budget'')
                then AList.update ''spend_budget''
                       (JObj [(''lifetime'', JNull), (''daily'', JNull),
                              (''include_fees'', JBool True)]) d6
                else d6);
          d8 = (if \<not> truthy (jget (JObj d7) ''frequency_caps'')
                then AList.update ''frequency_caps'' JNull d7 else d7)
      in d8)"

definition stringified :: "host \<Rightarrow> jv \<Rightarrow> jv" where
  "stringified h v = (case json_stringify h v of Some s \<Rightarrow> JStr s | None \<Rightarrow> JUndef)"

definition LineItemResource_create :: "host \<Rightarrow> 'w axios \<Rightarrow> jv \<Rightarrow> (jv, 'w) async" where
  "LineItemResource_create h ax body w =
     (if nullish body then (Inl type_error, w)
      else case request h ax ''POST'' ''/rest/v2/line-items''
                  (body_only (JObj (line_item_create_body body))) w of
        (Inl e, w') \<Rightarrow> (Inl e, w')
      | (Inr response, w') \<Rightarrow>
          if truthy response \<and> truthy (jget response ''id'')
          then (Inr (ok_response
                  (JObj (AList.update ''line_item_id'' (jget response ''id'')
                           (own_props response)))), w')
          else if truthy response \<and> jget response ''success'' \<noteq> JUndef
          then (Inr response, w')
          else (Inr (JObj [(''success'', JBool False),
                           (''message'', JStr ''Unexpected response format''),
                           (''errors'', JArr [stringified h response])]), w'))"

subsection \<open>CreativeResource.create\<close>

text \<open>
  \<open>typeMap\<close> is an object literal, so \<open>typeMap[key]\<close> with a computed key reads the own
  property and, when there is none, the property \<open>Object.prototype\<close> gives every plain
  object: \<open>constructor\<close> is the \<open>Object\<close> function, \<open>__proto__\<close> is \<open>Object.prototype\<close>
  itself, the others are its methods.
\<close>

definition Object_prototype_get :: "string \<Rightarrow> jv" where
  "Object_prototype_get k =
     (if k = ''constructor'' then JBuiltin ''Object''
      else if k = ''__proto__'' then JBuiltin ''Object.prototype''
      else if k \<in> set [''hasOwnProperty'', ''isPrototypeOf'', ''propertyIsEnumerable'',
                        ''toLocaleString'', ''toString'', ''valueOf'',
                        ''__defineGetter__'', ''__defineSetter__'',
                        ''__lookupGetter__'', ''__lookupSetter__'']
        then JBuiltin (''Object.prototype.'' @ k)
      else JUndef)"

definition typeMap :: "(string \<times> jv) list" where
  "typeMap = [(''display'', JNum 0), (''banner'', JNum 0), (''video'', JNum 1),
              (''native'', JNum 2)]"

definition typeMap_lookup :: "string \<Rightarrow> jv" where
  "typeMap_lookup k =
     (case map_of typeMap k of Some v \<Rightarrow> v | None \<Rightarrow> Object_prototype_get k)"

fun convert_type :: "jv \<Rightarrow> jv" where
  "convert_type (JStr s) =
     (if typeMap_lookup (toLowerCase s) \<noteq> JUndef then typeMap_lookup (toLowerCase s)
      else JStr s)"
| "convert_type v = v"

definition creative_create_body :: "jv \<Rightarrow> obj" where
  "creative_create_body body =
     (let d0 = own_props body;
          d1 = (if truthy (jor (jget body ''name'') (jget body ''creative_name''))
                then AList.delete ''name''
                       (AList.update ''creative_name''
                          (jor (jget body ''creative_name'') (jget body ''name'')) d0)
                else d0);
          typeValue = (if jget body ''creative_type'' \<noteq> JUndef
                       then jget body ''creative_type'' else jget body ''type'');
          d2 = (if typeValue \<noteq> JUndef
                then AList.delete ''type''
                       (AList.update ''creative_type'' (convert_type typeValue) d1)
                else d1);
          d3 = (if truthy (jor (jget body ''attributes'') (jget body ''creative_attributes''))
                then AList.delete ''attributes''
                       (AList.update ''creative_attributes''
                          (jor (jget body ''creative_attributes'') (jget body ''attributes''))
                          d2)
                else d2)
      in d3)"

definition CreativeResource_create :: "host \<Rightarrow> 'w axios \<Rightarrow> jv \<Rightarrow> (jv, 'w) async" where
  "CreativeResource_create h ax body w =
     (if nullish body then (Inl type_error, w)
      else BaseResource_create h ax creative_resource (JObj (creative_create_body body)) w)"

subsection \<open>TargetingTemplateResource\<close>

definition deprecation_message :: string where
  "deprecation_message =
     ''Targeting templates are deprecated. Please use targeting expressions API directly.''"

definition TargetingTemplateResource_create :: "jv \<Rightarrow> (jv, 'w) async" where
  "TargetingTemplateResource_create body w =
     (Inr (JObj [(''success'', JBool False), (''message'', JStr deprecation_message),
                 (''code'', JNum 410)]), w)"

definition TargetingTemplateResource_query :: "host \<Rightarrow> 'w axios \<Rightarrow> jv \<Rightarrow> (jv, 'w) async" where
  "TargetingTemplateResource_query h ax body w =
     (case BaseResource_query h ax targeting_template_resource body w of
        (Inr response, w') \<Rightarrow> (Inr response, w')
      | (Inl error, w') \<Rightarrow>
          (Inr (JObj [(''success'', JBool True), (''payload'', JArr []),
                      (''message'', JStr deprecation_message)]), w'))"

section \<open>A scripted remote side\<close>

text \<open>
  To speak of "every sequence of outcomes" the remote side is a script: the list of the
  outcomes still to come, \<open>Inl\<close> a rejection and \<open>Inr\<close> a response, together with the log
  of the request configurations received so far. A request past the end of the script
  is refused.
\<close>

type_synonym script = "(jv + jv) list \<times> jv list"

definition scripted :: "script axios" where
  "scripted config w =
     (case fst w of
        [] \<Rightarrow> (Inl (JErr ''script exhausted''), ([], snd w @ [config]))
      | out # rest \<Rightarrow> (out, (rest, snd w @ [config])))"

definition http_ok :: "jv \<Rightarrow> jv + jv" where
  "http_ok d = Inr (JObj [(''status'', JNum 200), (''data'', d)])"

definition envelope :: "jv \<Rightarrow> jv" where
  "envelope p = JObj [(''success'', JBool True), (''payload'', p)]"

section \<open>CampaignMacros\<close>

text \<open>
  The macros reach the API through the client's resources and helpers only. \<open>'w client\<close>
  holds the twelve operations they call; each may resolve to any value or throw any
  value, and changes the outside world as it likes.
\<close>

record 'w client =
  campaigns_find :: "jv \<Rightarrow> (jv, 'w) async"
  campaigns_create :: "jv \<Rightarrow> (jv, 'w) async"
  campaigns_edit :: "jv \<Rightarrow> jv \<Rightarrow> (jv, 'w) async"
  lineItems_query :: "jv \<Rightarrow> (jv, 'w) async"
  lineItems_create :: "jv \<Rightarrow> (jv, 'w) async"
  creatives_create :: "jv \<Rightarrow> (jv, 'w) async"
  creativeLineItems_query :: "jv \<Rightarrow> (jv, 'w) async"
  creativeLineItems_create :: "jv \<Rightarrow> (jv, 'w) async"
  targetingTemplates_create :: "jv \<Rightarrow> (jv, 'w) async"
  reports_create :: "jv \<Rightarrow> (jv, 'w) async"
  createLineItem :: "jv \<Rightarrow> (jv, 'w) async"
  uploadCreativeAsset :: "jv \<Rightarrow> (jv, 'w) async"

text \<open>\<open>String(v)\<close> and \<open>`${v}`\<close>: a string is itself, any other value is converted by
  the host.\<close>

definition js_string :: "host \<Rightarrow> jv \<Rightarrow> string" where
  "js_string h v = (case v of JStr s \<Rightarrow> s | _ \<Rightarrow> to_string h v)"

text \<open>\<open>a * b\<close>: the operands are converted to numbers first.\<close>

definition js_number :: "host \<Rightarrow> jv \<Rightarrow> jv" where
  "js_number h v =
     (case v of JNum x \<Rightarrow> JNum x | JNaN \<Rightarrow> JNaN | JUndef \<Rightarrow> JNaN | JNull \<Rightarrow> JNum 0
      | JBool b \<Rightarrow> JNum (if b then 1 else 0) | _ \<Rightarrow> to_number h v)"

definition js_times :: "host \<Rightarrow> jv \<Rightarrow> jv \<Rightarrow> jv" where
  "js_times h a b =
     (case (js_number h a, js_number h b) of
        (JNum x, JNum y) \<Rightarrow> JNum (x * y)
      | _ \<Rightarrow> JNaN)"

text \<open>\<open>response.success && response.payload\<close> as a condition, on a response that is
  not nullish.\<close>

definition succeeded :: "jv \<Rightarrow> bool" where
  "succeeded response = (truthy (jget response ''success'') \<and> truthy (jget response ''payload''))"

subsection \<open>bulkUpdateCampaignStatus\<close>

text \<open>One pass of the \<open>for\<close> loop per id. A thrown edit, and the \<open>TypeError\<close> of reading
  \<open>success\<close> off a nullish response, are caught inside the iteration. \<open>delay\<close> only
  waits.\<close>

fun bulkUpdate_loop ::
  "'w client \<Rightarrow> jv \<Rightarrow> jv list \<Rightarrow> nat \<times> nat \<Rightarrow> 'w \<Rightarrow> (nat \<times> nat) \<times> 'w" where
  "bulkUpdate_loop c active [] (updated, failed) w = ((updated, failed), w)"
| "bulkUpdate_loop c active (campaignId # rest) (updated, failed) w =
     (case campaigns_edit c campaignId (JObj [(''active'', active)]) w of
        (Inl error, w') \<Rightarrow> bulkUpdate_loop c active rest (updated, failed + 1) w'
      | (Inr response, w') \<Rightarrow>
          if nullish response then bulkUpdate_loop c active rest (updated, failed + 1) w'
          else if truthy (jget response ''success'')
            then bulkUpdate_loop c active rest (updated + 1, failed) w'
          else bulkUpdate_loop c active rest (updated, failed + 1) w')"

definition bulkUpdateCampaignStatus :: "'w client \<Rightarrow> jv list \<Rightarrow> jv \<Rightarrow> (jv, 'w) async" where
  "bulkUpdateCampaignStatus c campaignIds active w =
     (case bulkUpdate_loop c active campaignIds (0, 0) w of
        ((updated, failed), w') \<Rightarrow>
          (Inr (JObj [(''success'', JBool True),
                      (''payload'', JObj [(''updated'', JNum (of_nat updated)),
                                          (''failed'', JNum (of_nat failed))])]), w'))"

subsection \<open>bulkCreateLineItems\<close>

definition bulk_line_item_params :: "host \<Rightarrow> jv \<Rightarrow> jv \<Rightarrow> jv" where
  "bulk_line_item_params h campaignId item =
     JObj [(''campaign_id'', campaignId),
           (''name'', jget item ''name''),
           (''type'', JStr ''banner''),
           (''budget_type'', JStr ''spend including vendor fees''),
           (''spend_budget'', JObj [(''lifetime'', JStr (js_string h (jget item ''budget''))),
                                    (''include_fees'', JBool True)]),
           (''bidding'', JObj [(''strategy'', JStr ''CPM''),
                               (''values'', JObj [(''cpm_bid'', jor (jget item ''bid_price'') (JNum 3))]),
                               (''pacing'', JStr ''none''),
                               (''custom'', JBool False),
                               (''bid_shading_control'', JStr ''normal'')]),
           (''targeting'', jget item ''targeting''),
           (''active'', JBool False)]"

definition creating_error :: "host \<Rightarrow> jv \<Rightarrow> jv \<Rightarrow> jv" where
  "creating_error h item error =
     JStr (''Error creating line item '' @ js_string h (jget item ''name'') @ '': ''
           @ js_string h (jget error ''message''))"

text \<open>
  The loop of \<open>bulkCreateLineItems\<close>. Reading \<open>item.name\<close> off a nullish item throws in
  the \<open>try\<close> block and again in the \<open>catch\<close> block's template, and reading
  \<open>error.message\<close> off a nullish thrown value throws in the \<open>catch\<close> block: both leave
  the macro.
\<close>

fun bulkCreate_loop ::
  "host \<Rightarrow> 'w client \<Rightarrow> jv \<Rightarrow> jv list \<Rightarrow> jv list \<times> jv list \<Rightarrow> 'w
     \<Rightarrow> (jv + jv list \<times> jv list) \<times> 'w" where
  "bulkCreate_loop h c campaignId [] (created, errors) w = (Inr (created, errors), w)"
| "bulkCreate_loop h c campaignId (item # rest) (created, errors) w =
     (if nullish item then (Inl type_error, w)
      else case createLineItem c (bulk_line_item_params h campaignId item) w of
        (Inl error, w') \<Rightarrow>
          if nullish error then (Inl type_error, w')
          else bulkCreate_loop h c campaignId rest
                 (created, errors @ [creating_error h item error]) w'
      | (Inr response, w') \<Rightarrow>
          if nullish response
            then bulkCreate_loop h c campaignId rest
                   (created, errors @ [creating_error h item type_error]) w'
          else if succeeded response
            then bulkCreate_loop h c campaignId rest
                   (created @ [jget response ''payload''], errors) w'
          else bulkCreate_loop h c campaignId rest
                 (created, errors @ [JStr (''Failed to create line item: ''
                                           @ js_string h (jget item ''name''))]) w')"

definition bulkCreateLineItems :: "host \<Rightarrow> 'w client \<Rightarrow> jv \<Rightarrow> jv list \<Rightarrow> (jv, 'w) async" where
  "bulkCreateLineItems h c campaignId lineItems w =
     (case campaigns_find c campaignId w of
        (Inl error, w') \<Rightarrow> (Inl error, w')
      | (Inr campaignResponse, w') \<Rightarrow>
          if nullish campaignResponse then (Inl type_error, w')
          else if \<not> succeeded campaignResponse
            then (Inr (JObj [(''success'', JBool False),
                             (''message'', JStr ''Campaign not found'')]), w')
          else case bulkCreate_loop h c campaignId lineItems ([], []) w' of
            (Inl error, w'') \<Rightarrow> (Inl error, w'')
          | (Inr (created, errors), w'') \<Rightarrow>
              (Inr (JObj [(''success'', JBool (errors = [])),
                          (''payload'', JArr created),
                          (''errors'', if errors \<noteq> [] then JArr errors else JUndef)]), w''))"

subsection \<open>getCampaignPerformance\<close>

definition report_data :: "host \<Rightarrow> jv \<Rightarrow> jv \<Rightarrow> jv \<Rightarrow> jv" where
  "report_data h campaignId startDate endDate =
     JObj [(''advertiser_id'', JNum 0),
           (''report_name'', JStr (''Campaign '' @ js_string h campaignId @ '' Performance'')),
           (''report_type'', JStr ''campaign_performance''),
           (''dimensions'', JArr [JStr ''campaign_id'', JStr ''date'']),
           (''metrics'', JArr [JStr ''impressions'', JStr ''clicks'', JStr ''conversions'',
                               JStr ''spend'']),
           (''filters'', JObj [(''campaign_id'', campaignId)]),
           (''start_date'', startDate),
           (''end_date'', endDate)]"

definition getCampaignPerformance ::
  "host \<Rightarrow> 'w client \<Rightarrow> jv \<Rightarrow> jv \<Rightarrow> jv \<Rightarrow> (jv, 'w) async" where
  "getCampaignPerformance h c campaignId startDate endDate w =
     (case reports_create c (report_data h campaignId startDate endDate) w of
        (Inr reportResponse, w') \<Rightarrow> (Inr reportResponse, w')
      | (Inl error, w') \<Rightarrow>
          if nullish error then (Inl type_error, w')
          else (Inr (JObj [(''success'', JBool False),
                           (''message'', jor (jget error ''message'')
                                             (JStr ''Failed to get campaign performance'')),
                           (''errors'', JArr [JStr (js_string h error)])]), w'))"

subsection \<open>The top-level catch block and the result record\<close>

text \<open>\<open>catch (error) { return { success: false, message: error.message || fallback,
  errors: [JSON.stringify(error)] } }\<close>. Reading \<open>message\<close> off a thrown \<open>null\<close> or
  \<open>undefined\<close> throws out of the block.\<close>

definition macro_catch :: "host \<Rightarrow> string \<Rightarrow> jv \<Rightarrow> (jv, 'w) async" where
  "macro_catch h fallback error w =
     (if nullish error then (Inl type_error, w)
      else (Inr (JObj [(''success'', JBool False),
                       (''message'', jor (jget error ''message'') (JStr fallback)),
                       (''errors'', JArr [stringified h error])]), w))"

definition full_result :: "jv \<Rightarrow> jv list \<Rightarrow> jv list \<Rightarrow> jv list \<Rightarrow> jv list \<Rightarrow> jv" where
  "full_result campaign line_items creatives creative_line_items targeting_templates =
     JObj [(''campaign'', campaign),
           (''line_items'', JArr line_items),
           (''creatives'', JArr creatives),
           (''creative_line_items'', JArr creative_line_items),
           (''targeting_templates'', JArr targeting_templates)]"

text \<open>The properties a rest pattern \<open>const { k1: _, ..., ...rest } = v\<close> keeps.\<close>

definition omit :: "string list \<Rightarrow> obj \<Rightarrow> obj" where
  "omit ks kvs = filter (\<lambda>(k, v). k \<notin> set ks) kvs"

subsection \<open>cloneCampaign\<close>

definition campaign_read_only :: "string list" where
  "campaign_read_only =
     [''campaign_id'', ''created_date'', ''updated_date'', ''create_date'', ''update_date'',
      ''push_status'', ''push_update'', ''campaign_spend'', ''buzz_key'', ''last_active'']"

definition line_item_read_only :: "string list" where
  "line_item_read_only =
     [''line_item_id'', ''created_date'', ''updated_date'', ''create_date'', ''update_date'',
      ''push_status'', ''push_update'', ''line_item_spend'', ''line_item_impressions'',
      ''buzz_key'', ''last_active'', ''line_item_version'', ''has_skad_assignment'',
      ''account_id'']"

definition clone_campaign_data :: "host \<Rightarrow> jv \<Rightarrow> jv \<Rightarrow> jv \<Rightarrow> obj" where
  "clone_campaign_data h originalCampaign newName options =
     (let d0 = AList.update ''name'' newName (omit campaign_read_only (own_props originalCampaign));
          d1 = (if truthy (jget options ''start_date'')
                then AList.update ''start_date'' (jget options ''start_date'') d0 else d0);
          d2 = (if truthy (jget options ''end_date'')
                then AList.update ''end_date'' (jget options ''end_date'') d1 else d1);
          d3 = (if truthy (jget options ''budget_multiplier'')
                then AList.update ''campaign_budget''
                       (js_times h (jor (jget originalCampaign ''campaign_budget'') (JNum 0))
                                   (jget options ''budget_multiplier'')) d2
                else d2)
      in d3)"

definition clone_line_item_data :: "host \<Rightarrow> jv \<Rightarrow> jv \<Rightarrow> jv \<Rightarrow> obj" where
  "clone_line_item_data h lineItem newCampaign options =
     (let d0 = AList.update ''campaign_id'' (jget newCampaign ''campaign_id'')
                 (omit line_item_read_only (own_props lineItem));
          d1 = (if truthy (jget options ''budget_multiplier'')
                then AList.update ''line_item_budget''
                       (js_times h (jor (jget lineItem ''line_item_budget'') (JNum 0))
                                   (jget options ''budget_multiplier'')) d0
                else d0)
      in d1)"

fun clone_cli_loop ::
  "'w client \<Rightarrow> jv \<Rightarrow> jv list \<Rightarrow> jv list \<Rightarrow> 'w \<Rightarrow> (jv + jv list) \<times> 'w" where
  "clone_cli_loop c newLineItem [] creative_line_items w = (Inr creative_line_items, w)"
| "clone_cli_loop c newLineItem (cli # rest) creative_line_items w =
     (if \<not> truthy (jget newLineItem ''line_item_id'')
        then clone_cli_loop c newLineItem rest creative_line_items w
      else if nullish cli then (Inl type_error, w)
      else case creativeLineItems_create c
                  (JObj [(''creative_id'', jget cli ''creative_id''),
                         (''line_item_id'', jget newLineItem ''line_item_id''),
                         (''active'', jget cli ''active''),
                         (''weighting'', jget cli ''weighting'')]) w of
        (Inl error, w') \<Rightarrow> (Inl error, w')
      | (Inr newCliResponse, w') \<Rightarrow>
          if nullish newCliResponse then (Inl type_error, w')
          else if succeeded newCliResponse
            then clone_cli_loop c newLineItem rest
                   (creative_line_items @ [jget newCliResponse ''payload'']) w'
          else clone_cli_loop c newLineItem rest creative_line_items w')"

fun clone_line_items_loop ::
  "host \<Rightarrow> 'w client \<Rightarrow> jv \<Rightarrow> jv \<Rightarrow> jv list \<Rightarrow> jv list \<times> jv list \<Rightarrow> 'w
     \<Rightarrow> (jv + jv list \<times> jv list) \<times> 'w" where
  "clone_line_items_loop h c options newCampaign [] (line_items, creative_line_items) w =
     (Inr (line_items, creative_line_items), w)"
| "clone_line_items_loop h c options newCampaign (lineItem # rest)
       (line_items, creative_line_items) w =
     (if nullish lineItem then (Inl type_error, w)
      else case lineItems_create c
                  (JObj (clone_line_item_data h lineItem newCampaign options)) w of
        (Inl error, w1) \<Rightarrow> (Inl error, w1)
      | (Inr newLineItemResponse, w1) \<Rightarrow>
          if nullish newLineItemResponse then (Inl type_error, w1)
          else if \<not> succeeded newLineItemResponse
            then clone_line_items_loop h c options newCampaign rest
                   (line_items, creative_line_items) w1
          else if jget options ''clone_creatives'' = JBool False
            then clone_line_items_loop h c options newCampaign rest
                   (line_items @ [jget newLineItemResponse ''payload''], creative_line_items) w1
          else case creativeLineItems_query c
                      (JObj [(''line_item_id'', jget lineItem ''line_item_id'')]) w1 of
            (Inl error, w2) \<Rightarrow> (Inl error, w2)
          | (Inr cliResponse, w2) \<Rightarrow>
              if nullish cliResponse then (Inl type_error, w2)
              else if \<not> succeeded cliResponse
                then clone_line_items_loop h c options newCampaign rest
                       (line_items @ [jget newLineItemResponse ''payload''],
                        creative_line_items) w2
              else case iter (jget cliResponse ''payload'') of
                None \<Rightarrow> (Inl type_error, w2)
              | Some clis \<Rightarrow>
                  (case clone_cli_loop c (jget newLineItemResponse ''payload'') clis
                          creative_line_items w2 of
                     (Inl error, w3) \<Rightarrow> (Inl error, w3)
                   | (Inr creative_line_items', w3) \<Rightarrow>
                       clone_line_items_loop h c options newCampaign rest
                         (line_items @ [jget newLineItemResponse ''payload''],
                          creative_line_items') w3))"

text \<open>The \<open>try\<close> block of \<open>cloneCampaign\<close>.\<close>

definition cloneCampaign_try :: "host \<Rightarrow> 'w client \<Rightarrow> jv \<Rightarrow> jv \<Rightarrow> jv \<Rightarrow> (jv, 'w) async" where
  "cloneCampaign_try h c campaignId newName options w =
     (case campaigns_find c campaignId w of
        (Inl error, w1) \<Rightarrow> (Inl error, w1)
      | (Inr campaignResponse, w1) \<Rightarrow>
          if nullish campaignResponse then (Inl type_error, w1)
          else if \<not> succeeded campaignResponse then (Inl (JErr ''Campaign not found''), w1)
          else case campaigns_create c
                      (JObj (clone_campaign_data h (jget campaignResponse ''payload'')
                               newName options)) w1 of
            (Inl error, w2) \<Rightarrow> (Inl error, w2)
          | (Inr newCampaignResponse, w2) \<Rightarrow>
              if nullish newCampaignResponse then (Inl type_error, w2)
              else if \<not> succeeded newCampaignResponse
                then (Inl (JErr ''Failed to create new campaign''), w2)
              else if \<not> truthy (jget (jget newCampaignResponse ''payload'') ''campaign_id'')
                then (Inl (JErr ''New campaign ID not returned from API''), w2)
              else case lineItems_query c (JObj [(''campaign_id'', campaignId)]) w2 of
                (Inl error, w3) \<Rightarrow> (Inl error, w3)
              | (Inr lineItemsResponse, w3) \<Rightarrow>
                  if nullish lineItemsResponse then (Inl type_error, w3)
                  else if \<not> succeeded lineItemsResponse
                    then (Inr (full_result (jget newCampaignResponse ''payload'') [] [] [] []), w3)
                  else case iter (jget lineItemsResponse ''payload'') of
                    None \<Rightarrow> (Inl type_error, w3)
                  | Some lineItems \<Rightarrow>
                      (case clone_line_items_loop h c options
                              (jget newCampaignResponse ''payload'') lineItems ([], []) w3 of
                         (Inl error, w4) \<Rightarrow> (Inl error, w4)
                       | (Inr (line_items, creative_line_items), w4) \<Rightarrow>
                           (Inr (full_result (jget newCampaignResponse ''payload'')
                                   line_items [] creative_line_items []), w4)))"

definition cloneCampaign :: "host \<Rightarrow> 'w client \<Rightarrow> jv \<Rightarrow> jv \<Rightarrow> jv \<Rightarrow> (jv, 'w) async" where
  "cloneCampaign h c campaignId newName options w =
     (case cloneCampaign_try h c campaignId newName options w of
        (Inr result, w') \<Rightarrow> (Inr (ok_response result), w')
      | (Inl error, w') \<Rightarrow> macro_catch h ''Failed to clone campaign'' error w')"

subsection \<open>createFullCampaign\<close>

definition campaign_data :: "jv \<Rightarrow> jv" where
  "campaign_data options =
     JObj [(''advertiser_id'', jget options ''advertiser_id''),
           (''name'', jor (jget options ''name'') (jget options ''campaign_name'')),
           (''budget'', jor (jget options ''budget'') (jget options ''campaign_budget'')),
           (''budget_type'', jor (jget options ''budget_type'') (JNum 2)),
           (''start_date'', jget options ''start_date''),
           (''end_date'', jget options ''end_date''),
           (''active'', JBool False)]"

definition template_data :: "jv \<Rightarrow> jv \<Rightarrow> jv" where
  "template_data options templateOptions =
     JObj [(''advertiser_id'', jget options ''advertiser_id''),
           (''targeting_template_name'', jget templateOptions ''targeting_template_name''),
           (''targeting'', jget templateOptions ''targeting''),
           (''active'', JBool True)]"

definition full_line_item_params :: "host \<Rightarrow> jv \<Rightarrow> jv \<Rightarrow> jv" where
  "full_line_item_params h campaign lineItemOptions =
     JObj [(''campaign_id'', jget campaign ''campaign_id''),
           (''name'', jor (jget lineItemOptions ''name'') (jget lineItemOptions ''line_item_name'')),
           (''type'', jor (jget lineItemOptions ''type'') (JStr ''banner'')),
           (''guaranteed'', jor (jget lineItemOptions ''guaranteed'') (JBool False)),
           (''currency'', jor (jget lineItemOptions ''currency'') (JStr ''USD'')),
           (''budget_type'', jor (jget lineItemOptions ''budget_type'')
                                 (JStr ''spend including vendor fees'')),
           (''spend_budget'',
              jor (jget lineItemOptions ''spend_budget'')
                  (JObj [(''lifetime'',
                            JStr (js_string h
                                   (jor (jor (jget lineItemOptions ''budget'')
                                             (jget lineItemOptions ''line_item_budget''))
                                        (JNum 0)))),
                         (''include_fees'', JBool True)])),
           (''bidding'',
              jor (jget lineItemOptions ''bidding'')
                  (JObj [(''strategy'', JStr ''CPM''),
                         (''values'', JObj [(''cpm_bid'',
                                              jor (jget lineItemOptions ''bid_price'') (JNum 3))]),
                         (''pacing'', JStr ''none''),
                         (''custom'', JBool False),
                         (''bid_shading_control'', JStr ''normal'')])),
           (''frequency_caps'', jget lineItemOptions ''frequency_caps''),
           (''targeting'', jget lineItemOptions ''targeting''),
           (''targeting_expression_id'', jget lineItemOptions ''targeting_expression_id''),
           (''start_date'', jget lineItemOptions ''start_date''),
           (''end_date'', jget lineItemOptions ''end_date''),
           (''active'', jor (jget lineItemOptions ''active'') (JBool False))]"

definition asset_params :: "jv \<Rightarrow> jv \<Rightarrow> jv" where
  "asset_params options creativeOptions =
     JObj [(''advertiser_id'', jget options ''advertiser_id''),
           (''sourceUrl'', jget creativeOptions ''asset_url''),
           (''creative_asset_name'', jget creativeOptions ''creative_name'')]"

definition creative_data :: "jv \<Rightarrow> jv \<Rightarrow> jv \<Rightarrow> jv" where
  "creative_data options creativeOptions creativeAssetId =
     (let d0 = [(''advertiser_id'', jget options ''advertiser_id''),
                (''name'', jor (jget creativeOptions ''name'') (jget creativeOptions ''creative_name'')),
                (''type'', jor (jor (jget creativeOptions ''type'')
                                    (jget creativeOptions ''creative_type''))
                               (JStr ''display'')),
                (''creative_template_id'',
                   jor (jget creativeOptions ''creative_template_id'') (JNum 1)),
                (''width'', jget creativeOptions ''width''),
                (''height'', jget creativeOptions ''height''),
                (''click_url'', jor (jget creativeOptions ''click_url'')
                                    (JStr ''https://example.com'')),
                (''secure'', JBool True),
                (''active'', JBool False)];
          d1 = (if truthy (jor (jget creativeOptions ''attributes'')
                               (jget creativeOptions ''creative_attributes''))
                then AList.update ''attributes''
                       (jor (jget creativeOptions ''attributes'')
                            (jget creativeOptions ''creative_attributes'')) d0
                else d0);
          d2 = (if truthy creativeAssetId
                then AList.update ''creative_asset_id'' creativeAssetId d1 else d1)
      in JObj d2)"

text \<open>The asset upload of one creative, with its own \<open>try\<close>/\<open>catch\<close>: a failed upload, or
  a nullish asset, leaves \<open>creativeAssetId\<close> undefined.\<close>

definition upload_asset :: "'w client \<Rightarrow> jv \<Rightarrow> jv \<Rightarrow> 'w \<Rightarrow> jv \<times> 'w" where
  "upload_asset c options creativeOptions w =
     (if truthy (jget creativeOptions ''asset_url'')
      then case uploadCreativeAsset c (asset_params options creativeOptions) w of
             (Inl error, w') \<Rightarrow> (JUndef, w')
           | (Inr asset, w') \<Rightarrow> (jget asset ''creative_asset_id'', w')
      else (JUndef, w))"

fun templates_loop ::
  "'w client \<Rightarrow> jv \<Rightarrow> jv list \<Rightarrow> jv list \<Rightarrow> 'w \<Rightarrow> (jv + jv list) \<times> 'w" where
  "templates_loop c options [] targeting_templates w = (Inr targeting_templates, w)"
| "templates_loop c options (templateOptions # rest) targeting_templates w =
     (if nullish templateOptions then (Inl type_error, w)
      else case targetingTemplates_create c (template_data options templateOptions) w of
        (Inl error, w') \<Rightarrow> (Inl error, w')
      | (Inr templateResponse, w') \<Rightarrow>
          if nullish templateResponse then (Inl type_error, w')
          else if succeeded templateResponse
            then templates_loop c options rest
                   (targeting_templates @ [jget templateResponse ''payload'']) w'
          else templates_loop c options rest targeting_templates w')"

fun creatives_loop ::
  "'w client \<Rightarrow> jv \<Rightarrow> jv \<Rightarrow> jv list \<Rightarrow> jv list \<times> jv list \<Rightarrow> 'w
     \<Rightarrow> (jv + jv list \<times> jv list) \<times> 'w" where
  "creatives_loop c options lineItem [] (creatives, creative_line_items) w =
     (Inr (creatives, creative_line_items), w)"
| "creatives_loop c options lineItem (creativeOptions # rest) (creatives, creative_line_items) w =
     (if nullish creativeOptions then (Inl type_error, w)
      else case upload_asset c options creativeOptions w of
        (creativeAssetId, w1) \<Rightarrow>
          (case creatives_create c (creative_data options creativeOptions creativeAssetId) w1 of
             (Inl error, w2) \<Rightarrow> (Inl error, w2)
           | (Inr creativeResponse, w2) \<Rightarrow>
               if nullish creativeResponse then (Inl type_error, w2)
               else if \<not> succeeded creativeResponse
                 then creatives_loop c options lineItem rest (creatives, creative_line_items) w2
               else if \<not> truthy (jget (jget creativeResponse ''payload'') ''creative_id'')
                       \<or> \<not> truthy (jget lineItem ''line_item_id'')
                 then creatives_loop c options lineItem rest
                        (creatives @ [jget creativeResponse ''payload''], creative_line_items) w2
               else case creativeLineItems_create c
                           (JObj [(''creative_id'',
                                     jget (jget creativeResponse ''payload'') ''creative_id''),
                                  (''line_item_id'', jget lineItem ''line_item_id''),
                                  (''active'', JBool True),
                                  (''weighting'', JNum 100)]) w2 of
                 (Inl error, w3) \<Rightarrow> (Inl error, w3)
               | (Inr cliResponse, w3) \<Rightarrow>
                   if nullish cliResponse then (Inl type_error, w3)
                   else if succeeded cliResponse
                     then creatives_loop c options lineItem rest
                            (creatives @ [jget creativeResponse ''payload''],
                             creative_line_items @ [jget cliResponse ''payload'']) w3
                   else creatives_loop c options lineItem rest
                          (creatives @ [jget creativeResponse ''payload''],
                           creative_line_items) w3))"

fun full_line_items_loop ::
  "host \<Rightarrow> 'w client \<Rightarrow> jv \<Rightarrow> jv \<Rightarrow> jv list \<Rightarrow> jv list \<times> jv list \<times> jv list \<Rightarrow> 'w
     \<Rightarrow> (jv + jv list \<times> jv list \<times> jv list) \<times> 'w" where
  "full_line_items_loop h c options campaign [] (line_items, creatives, creative_line_items) w =
     (Inr (line_items, creatives, creative_line_items), w)"
| "full_line_items_loop h c options campaign (lineItemOptions # rest)
       (line_items, creatives, creative_line_items) w =
     (if nullish lineItemOptions then (Inl type_error, w)
      else case createLineItem c (full_line_item_params h campaign lineItemOptions) w of
        (Inl error, w1) \<Rightarrow> (Inl error, w1)
      | (Inr lineItemResponse, w1) \<Rightarrow>
          if nullish lineItemResponse then (Inl type_error, w1)
          else if \<not> succeeded lineItemResponse
            then full_line_items_loop h c options campaign rest
                   (line_items, creatives, creative_line_items) w1
          else if \<not> truthy (jget lineItemOptions ''creatives'')
            then full_line_items_loop h c options campaign rest
                   (line_items @ [jget lineItemResponse ''payload''], creatives,
                    creative_line_items) w1
          else case iter (jget lineItemOptions ''creatives'') of
            None \<Rightarrow> (Inl type_error, w1)
          | Some creativeOptionsList \<Rightarrow>
              (case creatives_loop c options (jget lineItemResponse ''payload'')
                      creativeOptionsList (creatives, creative_line_items) w1 of
                 (Inl error, w2) \<Rightarrow> (Inl error, w2)
               | (Inr (creatives', creative_line_items'), w2) \<Rightarrow>
                   full_line_items_loop h c options campaign rest
                     (line_items @ [jget lineItemResponse ''payload''], creatives',
                      creative_line_items') w2))"

text \<open>Step 2 of the \<open>try\<close> block: the targeting templates, when the options give any.\<close>

definition create_templates :: "'w client \<Rightarrow> jv \<Rightarrow> (jv list, 'w) async" where
  "create_templates c options w =
     (if \<not> truthy (jget options ''targeting_templates'') then (Inr [], w)
      else case iter (jget options ''targeting_templates'') of
        None \<Rightarrow> (Inl type_error, w)
      | Some templates \<Rightarrow> templates_loop c options templates [] w)"

definition createFullCampaign_try :: "host \<Rightarrow> 'w client \<Rightarrow> jv \<Rightarrow> (jv, 'w) async" where
  "createFullCampaign_try h c options w =
     (if nullish options then (Inl type_error, w)
      else case campaigns_create c (campaign_data options) w of
        (Inl error, w1) \<Rightarrow> (Inl error, w1)
      | (Inr campaignResponse, w1) \<Rightarrow>
          if nullish campaignResponse then (Inl type_error, w1)
          else if \<not> succeeded campaignResponse
            then (Inl (JErr ''Failed to create campaign''), w1)
          else if \<not> truthy (jget (jget campaignResponse ''payload'') ''campaign_id'')
            then (Inl (JErr ''Campaign ID not returned from API''), w1)
          else case create_templates c options w1 of
            (Inl error, w2) \<Rightarrow> (Inl error, w2)
          | (Inr targeting_templates, w2) \<Rightarrow>
              (case iter (jget options ''line_items'') of
                 None \<Rightarrow> (Inl type_error, w2)
               | Some lineItemOptionsList \<Rightarrow>
                   (case full_line_items_loop h c options (jget campaignResponse ''payload'')
                           lineItemOptionsList ([], [], []) w2 of
                      (Inl error, w3) \<Rightarrow> (Inl error, w3)
                    | (Inr (line_items, creatives, creative_line_items), w3) \<Rightarrow>
                        (Inr (full_result (jget campaignResponse ''payload'') line_items
                                creatives creative_line_items targeting_templates), w3))))"

definition createFullCampaign :: "host \<Rightarrow> 'w client \<Rightarrow> jv \<Rightarrow> (jv, 'w) async" where
  "createFullCampaign h c options w =
     (case createFullCampaign_try h c options w of
        (Inr result, w') \<Rightarrow> (Inr (ok_response result), w')
      | (Inl error, w') \<Rightarrow> macro_catch h ''Failed to create full campaign'' error w')"

subsection \<open>A scripted client\<close>

text \<open>
  The resource client as a script, for statements about every sequence of outcomes:
  each call takes the next outcome of the script, \<open>Inl\<close> thrown and \<open>Inr\<close> returned, and
  is logged with its name and arguments.
\<close>

type_synonym calls = "(jv + jv) list \<times> (string \<times> jv list) list"

definition scripted_call :: "string \<Rightarrow> jv list \<Rightarrow> (jv, calls) async" where
  "scripted_call name args w =
     (case fst w of
        [] \<Rightarrow> (Inl (JErr ''script exhausted''), ([], snd w @ [(name, args)]))
      | out # rest \<Rightarrow> (out, (rest, snd w @ [(name, args)])))"

definition scripted_client :: "calls client" where
  "scripted_client =
     \<lparr>campaigns_find = (\<lambda>ident. scripted_call ''campaigns.find'' [ident]),
      campaigns_create = (\<lambda>body. scripted_call ''campaigns.create'' [body]),
      campaigns_edit = (\<lambda>ident body. scripted_call ''campaigns.edit'' [ident, body]),
      lineItems_query = (\<lambda>body. scripted_call ''lineItems.query'' [body]),
      lineItems_create = (\<lambda>body. scripted_call ''lineItems.create'' [body]),
      creatives_create = (\<lambda>body. scripted_call ''creatives.create'' [body]),
      creativeLineItems_query = (\<lambda>body. scripted_call ''creativeLineItems.query'' [body]),
      creativeLineItems_create = (\<lambda>body. scripted_call ''creativeLineItems.create'' [body]),
      targetingTemplates_create = (\<lambda>body. scripted_call ''targetingTemplates.create'' [body]),
      reports_create = (\<lambda>body. scripted_call ''reports.create'' [body]),
      createLineItem = (\<lambda>params. scripted_call ''createLineItem'' [params]),
      uploadCreativeAsset = (\<lambda>params. scripted_call ''uploadCreativeAsset'' [params])\<rparr>"

section \<open>BeeswaxClient: the session\<close>

text \<open>
  \<open>'n adapter\<close> is one HTTP exchange as axios performs it below this client's
  interceptors: \<open>Inr\<close> a response object (status, headers, data), \<open>Inl\<close> the error axios
  rejects with (for a status outside 2xx an error carrying \<open>response\<close>). axios sets
  \<open>error.config\<close> to the configuration of the failed request, as it left the request
  interceptors; the model reads that configuration directly where the source reads
  \<open>error.config\<close>. The retry plug-in, installed only when \<open>retryOptions\<close> are given, is
  part of the exchange.

  The session is the client's mutable state: the credentials, the stored handle of
  the authentication in flight (\<open>authPromise\<close>, a promise named by a number), the
  session cookie and the remote side. \<open>auth_started\<close> counts the calls of
  \<open>performAuthentication\<close> so far; it names the promises.

  One task run to its end is a function from the session to an outcome and the new
  session. \<open>Pending\<close> is a promise that never settles. A task that calls
  \<open>authenticate()\<close> while \<open>authPromise\<close> is set receives that stored promise; within one
  task the stored promise belongs to a caller that is itself waiting for this call, so
  neither settles. (A second task that joins an attempt of another task is the subject
  of \<open>authenticate_calls\<close> and \<open>auth_run\<close> below.)
\<close>

datatype outcome = Resolved jv | Rejected jv | Pending

record 'n session =
  creds :: jv
  authPromise :: "nat option"
  auth_started :: nat
  sessionCookies :: jv
  net :: 'n

type_synonym 'n adapter = "jv \<Rightarrow> 'n \<Rightarrow> (jv + jv) \<times> 'n"

definition request_interceptor :: "'n session \<Rightarrow> jv \<Rightarrow> jv" where
  "request_interceptor s config =
     (if truthy (sessionCookies s)
      then JObj (AList.update ''headers''
                   (JObj (AList.update ''Cookie'' (sessionCookies s)
                            (own_props (jget config ''headers''))))
                   (own_props config))
      else config)"

fun join_strings :: "string list \<Rightarrow> string" where
  "join_strings [] = []"
| "join_strings [x] = x"
| "join_strings (x # y # ys) = x @ ''; '' @ join_strings (y # ys)"

definition join_cookies :: "host \<Rightarrow> jv list \<Rightarrow> jv" where
  "join_cookies h xs = JStr (join_strings (map (\<lambda>x. if nullish x then [] else js_string h x) xs))"

definition response_fulfilled :: "host \<Rightarrow> jv \<Rightarrow> 'n session \<Rightarrow> outcome \<times> 'n session" where
  "response_fulfilled h response s =
     (if nullish response \<or> nullish (jget response ''headers'') then (Rejected type_error, s)
      else if \<not> truthy (jget (jget response ''headers'') ''set-cookie'') then (Resolved response, s)
      else case jget (jget response ''headers'') ''set-cookie'' of
             JArr setCookies \<Rightarrow> (Resolved response, s\<lparr>sessionCookies := join_cookies h setCookies\<rparr>)
           | _ \<Rightarrow> (Rejected type_error, s))"

definition mark_retry :: "jv \<Rightarrow> jv" where
  "mark_retry config = JObj (AList.update ''_retry'' (JBool True) (own_props config))"

definition login_config :: "jv \<Rightarrow> jv" where
  "login_config cr =
     JObj [(''method'', JStr ''post''), (''url'', JStr ''/rest/authenticate''),
           (''data'', JObj [(''email'', jget cr ''email''), (''password'', jget cr ''password''),
                            (''keep_logged_in'', JBool True)])]"

definition stringified_text :: "host \<Rightarrow> jv \<Rightarrow> string" where
  "stringified_text h v = (case json_stringify h v of Some t \<Rightarrow> t | None \<Rightarrow> ''undefined'')"

definition performAuthentication_catch :: "host \<Rightarrow> jv \<Rightarrow> jv" where
  "performAuthentication_catch h error =
     (if nullish error then type_error
      else if truthy (jget error ''response'')
        then JErr (''Authentication failed: '' @ js_string h (jget (jget error ''response'') ''status'')
                   @ '' - '' @ stringified_text h (jget (jget error ''response'') ''data''))
      else error)"

text \<open>
  \<open>authenticate\<close> up to its \<open>await\<close>: with a stored promise the caller gets it back
  (\<open>False\<close>: it started nothing); otherwise \<open>performAuthentication()\<close> is called, which
  issues the login POST, and its promise is stored (\<open>True\<close>). \<open>authenticate_finally\<close> is
  the \<open>finally\<close> block, run by the call that stored the promise once it has settled.
\<close>

definition authenticate_enter :: "'n session \<Rightarrow> (nat \<times> bool) \<times> 'n session" where
  "authenticate_enter s =
     (case authPromise s of
        Some p \<Rightarrow> ((p, False), s)
      | None \<Rightarrow> ((auth_started s, True),
                 s\<lparr>authPromise := Some (auth_started s), auth_started := Suc (auth_started s)\<rparr>))"

definition authenticate_finally :: "'n session \<Rightarrow> 'n session" where
  "authenticate_finally s = s\<lparr>authPromise := None\<rparr>"

text \<open>The request interceptor touches the headers only, so a retry mark survives it.\<close>

lemma jget_request_interceptor_retry:
  "jget (request_interceptor s config) ''_retry'' = jget config ''_retry''"
  by (cases config) (simp_all add: request_interceptor_def update_conv')

function axiosInstance_request :: "host \<Rightarrow> 'n adapter \<Rightarrow> jv \<Rightarrow> 'n session \<Rightarrow> outcome \<times> 'n session"
  and authenticate :: "host \<Rightarrow> 'n adapter \<Rightarrow> 'n session \<Rightarrow> outcome \<times> 'n session"
  and performAuthentication :: "host \<Rightarrow> 'n adapter \<Rightarrow> 'n session \<Rightarrow> outcome \<times> 'n session"
where
  "axiosInstance_request h ad config s =
     (case ad (request_interceptor s config) (net s) of
        (Inr response, n') \<Rightarrow> response_fulfilled h response (s\<lparr>net := n'\<rparr>)
      | (Inl error, n') \<Rightarrow>
          if nullish error then (Rejected type_error, s\<lparr>net := n'\<rparr>)
          else if jget (jget error ''response'') ''status'' = JNum 401
                  \<and> \<not> truthy (jget (request_interceptor s config) ''_retry'')
            then (case authenticate h ad (s\<lparr>net := n'\<rparr>) of
                    (Resolved u, s2) \<Rightarrow>
                      axiosInstance_request h ad (mark_retry (request_interceptor s config)) s2
                  | (Rejected e, s2) \<Rightarrow> (Rejected e, s2)
                  | (Pending, s2) \<Rightarrow> (Pending, s2))
          else (Rejected error, s\<lparr>net := n'\<rparr>))"
| "authenticate h ad s =
     (case authenticate_enter s of
        ((p, False), s1) \<Rightarrow> (Pending, s1)
      | ((p, True), s1) \<Rightarrow>
          (case performAuthentication h ad s1 of
             (Pending, s2) \<Rightarrow> (Pending, s2)
           | (Resolved u, s2) \<Rightarrow> (Resolved u, authenticate_finally s2)
           | (Rejected e, s2) \<Rightarrow> (Rejected e, authenticate_finally s2)))"
| "performAuthentication h ad s =
     (case axiosInstance_request h ad (login_config (creds s)) s of
        (Pending, s') \<Rightarrow> (Pending, s')
      | (Rejected error, s') \<Rightarrow> (Rejected (performAuthentication_catch h error), s')
      | (Resolved response, s') \<Rightarrow>
          if nullish response \<or> nullish (jget response ''data'')
            then (Rejected (performAuthentication_catch h type_error), s')
          else if jget (jget response ''data'') ''success'' = JBool False
            then (Rejected (performAuthentication_catch h
                    (JErr (''Authentication failed: ''
                           @ stringified_text h (jget response ''data'')))), s')
          else (Resolved JUndef, s'))"
  by pat_completeness auto
termination
proof (relation "measure (\<lambda>x. case x of
          Inl (h, ad, config, s) \<Rightarrow>
            (if truthy (jget config ''_retry'') then 0
             else if authPromise s = None then 4 else 1)
        | Inr (Inl (h, ad, s)) \<Rightarrow> (if authPromise s = None then 3 else 0)
        | Inr (Inr (h, ad, s)) \<Rightarrow> (if authPromise s = None then 5 else 2))", goal_cases)
  case 1
  then show ?case by simp
next
  case (2 h ad config s x1 x2 error)
  then show ?case by (auto simp: jget_request_interceptor_retry split: if_splits)
next
  case (3 h ad config s x1 x2 error x y u)
  then show ?case
    by (auto simp: mark_retry_def update_conv' jget_request_interceptor_retry split: if_splits)
next
  case (4 h ad s x y p b)
  then show ?case by (auto simp: authenticate_enter_def split: option.splits)
next
  case (5 h ad s)
  then show ?case by (auto simp: login_config_def)
qed

declare axiosInstance_request.simps [simp del] authenticate.simps [simp del]
  performAuthentication.simps [simp del]

text \<open>
  Several tasks. JavaScript runs each stretch of code between two \<open>await\<close>s to its end
  before any other code, so concurrent calls of \<open>authenticate()\<close> are a sequence of
  \<open>authenticate_enter\<close> steps, and the settling of the login in flight is one more
  step, in which the call that started it runs its \<open>finally\<close> block.
  \<open>authenticate_calls n\<close> is \<open>n\<close> calls with no settling in between; it returns the
  promise each caller received.
\<close>

fun authenticate_calls :: "nat \<Rightarrow> 'n session \<Rightarrow> nat list \<times> 'n session" where
  "authenticate_calls 0 s = ([], s)"
| "authenticate_calls (Suc n) s =
     (case authenticate_enter s of
        ((p, started), s1) \<Rightarrow>
          (case authenticate_calls n s1 of (ps, s2) \<Rightarrow> (p # ps, s2)))"

datatype auth_event = Call | Settle

fun auth_step :: "auth_event \<Rightarrow> 'n session \<Rightarrow> 'n session" where
  "auth_step Call s = snd (authenticate_enter s)"
| "auth_step Settle s = (if authPromise s = None then s else authenticate_finally s)"

fun auth_run :: "auth_event list \<Rightarrow> 'n session \<Rightarrow> 'n session" where
  "auth_run [] s = s"
| "auth_run (e # es) s = auth_run es (auth_step e s)"


section \<open>Sample inputs and observations used in the statements\<close>

text \<open>A host for closed examples. None of the examples depends on what it answers.\<close>

definition sample_host :: host where
  "sample_host =
     \<lparr>json_stringify = (\<lambda>v. Some ''{}''), to_string = (\<lambda>v. ''''), to_number = (\<lambda>v. JNaN)\<rparr>"

text \<open>A remote side that pages a fixed list of records by the \<open>offset\<close> and \<open>rows\<close> of
  the query, and counts the requests it has served.\<close>

fun nat_of :: "jv \<Rightarrow> nat" where
  "nat_of (JNum x) = nat \<lfloor>x\<rfloor>"
| "nat_of v = 0"

definition paged_server :: "jv list \<Rightarrow> nat axios" where
  "paged_server records config n =
     (let params = jget config ''params'';
          offset = nat_of (jget params ''offset'');
          rows = nat_of (jget params ''rows'')
      in (http_ok (envelope (JArr (take rows (drop offset records)))), Suc n))"

text \<open>What \<open>bulkUpdateCampaignStatus\<close> counts as an updated campaign: the edit returned
  a response whose \<open>success\<close> is truthy.\<close>

definition edit_succeeded :: "jv + jv \<Rightarrow> bool" where
  "edit_succeeded out =
     (case out of Inl error \<Rightarrow> False
      | Inr response \<Rightarrow> \<not> nullish response \<and> truthy (jget response ''success''))"

definition sample_session :: "(jv + jv) list \<Rightarrow> script session" where
  "sample_session outs =
     \<lparr>creds = JObj [(''email'', JStr ''ops@example.com''), (''password'', JStr ''secret'')],
      authPromise = None, auth_started = 0, sessionCookies = JStr ''sid=old'',
      net = (outs, [])\<rparr>"

definition unauthorized_error :: jv where
  "unauthorized_error =
     JObj [(''message'', JStr ''Request failed with status code 401''),
           (''response'', JObj [(''status'', JNum 401), (''data'', JStr ''Unauthorized'')])]"


section \<open>BaseResource.queryAll\<close>

lemma toUpperCase_GET: "toUpperCase ''GET'' = ''GET''"
  by (simp add: toUpperCase_def upper_char_def)

lemma request_scripted_page:
  "request h scripted ''GET'' e opts (http_ok (envelope p) # rest, tr)
     = (Inr (envelope p), (rest, tr @ [request_config ''GET'' e opts]))"
  by (simp add: request_def scripted_def http_ok_def envelope_def nullish_def)

lemma jget_envelope_payload: "jget (envelope p) ''payload'' = p"
  by (simp add: envelope_def)

lemma map_upt_shift: "map f [0..<Suc n] = f 0 # map (\<lambda>i. f (Suc i)) [0..<n]"
  by (simp add: map_upt_Suc del: upt_Suc)

lemma queryAll_loop_scripted:
  assumes "\<forall>p\<in>set ps. batchSize \<le> length p" and "length q < batchSize"
  shows "queryAll_loop h scripted r body results offset
           (map (\<lambda>p. http_ok (envelope (JArr p))) (ps @ [q]) @ rest, tr)
         = Some (Inr (results @ concat ps @ q),
                 (rest, tr @ map (\<lambda>i. request_config ''GET'' (endpoint r)
                                     (body_only (queryBody r body (offset + batchSize * i))))
                              [0..<Suc (length ps)]))"
  using assms
proof (induction ps arbitrary: results offset tr)
  case Nil
  then show ?case
    by (subst queryAll_loop.simps) (simp add: request_scripted_page jget_envelope_payload jor_def)
next
  case (Cons p ps)
  from Cons.prems have full: "\<not> length p < batchSize" and rest: "\<forall>p\<in>set ps. batchSize \<le> length p"
    by auto
  have step: "queryAll_loop h scripted r body results offset
           (map (\<lambda>p. http_ok (envelope (JArr p))) ((p # ps) @ [q]) @ rest, tr)
        = queryAll_loop h scripted r body (results @ p) (offset + batchSize)
           (map (\<lambda>p. http_ok (envelope (JArr p))) (ps @ [q]) @ rest,
            tr @ [request_config ''GET'' (endpoint r) (body_only (queryBody r body offset))])"
    using full
    by (subst queryAll_loop.simps) (simp add: request_scripted_page jget_envelope_payload jor_def)
  show ?case
    unfolding step
    by (subst Cons.IH [OF rest Cons.prems(2)])
       (simp add: map_upt_shift [of _ "Suc (length ps)"] add.assoc del: upt_Suc)
qed

lemma jget_queryBody_offset: "jget (queryBody r body offset) ''offset'' = JNum (of_nat offset)"
  by (simp add: queryBody_def update_conv')

lemma jget_queryBody_rows: "jget (queryBody r body offset) ''rows'' = JNum (of_nat batchSize)"
  by (simp add: queryBody_def update_conv')

lemma request_paged:
  "request h (paged_server records) ''GET'' e (body_only (queryBody r body offset)) n
     = (Inr (envelope (JArr (take batchSize (drop offset records)))), Suc n)"
  by (simp add: request_def paged_server_def request_config_def toUpperCase_GET body_only_def
        jor_def queryBody_def update_conv' http_ok_def envelope_def nullish_def)

lemma queryAll_loop_paged:
  "queryAll_loop h (paged_server records) r body results offset n
     = Some (Inr (results @ drop offset records),
             n + (length records - offset) div batchSize + 1)"
proof (induction "length records - offset" arbitrary: results offset n rule: less_induct)
  case less
  have unfold: "queryAll_loop h (paged_server records) r body results offset n
      = (if length records - offset < batchSize
         then Some (Inr (results @ take batchSize (drop offset records)), Suc n)
         else queryAll_loop h (paged_server records) r body
                (results @ take batchSize (drop offset records)) (offset + batchSize) (Suc n))"
    by (subst queryAll_loop.simps)
       (simp add: request_paged jget_envelope_payload jor_def)
  show ?case
  proof (cases "length records - offset < batchSize")
    case True
    then show ?thesis
      unfolding unfold by simp
  next
    case False
    have pos: "0 < batchSize" by (simp add: batchSize_def)
    have smaller: "length records - (offset + batchSize) < length records - offset"
      using False pos by linarith
    have "drop (offset + batchSize) records = drop batchSize (drop offset records)"
      by (simp add: add.commute)
    then have split: "take batchSize (drop offset records) @ drop (offset + batchSize) records
                   = drop offset records"
      by (simp only: append_take_drop_id)
    have count: "(length records - offset) div batchSize
                   = Suc ((length records - (offset + batchSize)) div batchSize)"
      using le_div_geq [of batchSize "length records - offset"] pos False by simp
    have "queryAll_loop h (paged_server records) r body results offset n
        = queryAll_loop h (paged_server records) r body
                (results @ take batchSize (drop offset records)) (offset + batchSize) (Suc n)"
      unfolding unfold using False by simp
    also have "\<dots> = Some (Inr ((results @ take batchSize (drop offset records))
                               @ drop (offset + batchSize) records),
                        Suc n + (length records - (offset + batchSize)) div batchSize + 1)"
      by (rule less.hyps [OF smaller])
    also have "\<dots> = Some (Inr (results @ drop offset records),
                        n + (length records - offset) div batchSize + 1)"
      using split count by simp
    finally show ?thesis .
  qed
qed

text \<open>
  Claim C4. \<open>queryAll\<close> asks for pages of 50 records sorted by the identity field at
  offsets 0, 50, 100, ..., appends each page to the result, and stops at the first
  page with fewer than 50 records, answering \<open>{success: true, payload}\<close> with the
  concatenation of the pages up to and including that one. First conjunct: against
  every sequence of pages \<open>ps\<close> of at least 50 records followed by a page \<open>q\<close> of fewer,
  whatever the script holds after them, the loop ends (the result is \<open>Some\<close>), the payload
  is \<open>concat ps @ q\<close>, the requests logged are exactly the \<open>length ps + 1\<close> page requests
  in order, and the rest of the script is untouched. Second conjunct: against a remote
  side that pages a list of exactly \<open>50 * k\<close> records, all of them are returned, after
  \<open>k + 1\<close> requests (the last page is empty).
\<close>

theorem queryAll_collects_pages:
  "((\<forall>p\<in>set ps. 50 \<le> length p) \<and> length q < 50 \<longrightarrow>
      BaseResource_queryAll h scripted r body
          (map (\<lambda>p. http_ok (envelope (JArr p))) (ps @ [q]) @ rest, tr)
        = Some (Inr (JObj [(''success'', JBool True), (''payload'', JArr (concat ps @ q))]),
                (rest, tr @ map (\<lambda>i. request_config ''GET'' (endpoint r)
                                   (body_only (JObj (AList.update ''sort_by'' (JStr (idField r))
                                      (AList.update ''offset'' (JNum (of_nat (50 * i)))
                                        (AList.update ''rows'' (JNum 50) (own_props body)))))))
                             [0..<Suc (length ps)])))
   \<and> (length records = 50 * k \<longrightarrow>
      BaseResource_queryAll h (paged_server records) r body n
        = Some (Inr (JObj [(''success'', JBool True), (''payload'', JArr records)]), n + k + 1))"
proof (intro conjI impI)
  assume a: "(\<forall>p\<in>set ps. 50 \<le> length p) \<and> length q < 50"
  then have full: "\<forall>p\<in>set ps. batchSize \<le> length p" and short: "length q < batchSize"
    by (simp_all add: batchSize_def)
  show "BaseResource_queryAll h scripted r body
          (map (\<lambda>p. http_ok (envelope (JArr p))) (ps @ [q]) @ rest, tr)
        = Some (Inr (JObj [(''success'', JBool True), (''payload'', JArr (concat ps @ q))]),
                (rest, tr @ map (\<lambda>i. request_config ''GET'' (endpoint r)
                                   (body_only (JObj (AList.update ''sort_by'' (JStr (idField r))
                                      (AList.update ''offset'' (JNum (of_nat (50 * i)))
                                        (AList.update ''rows'' (JNum 50) (own_props body)))))))
                             [0..<Suc (length ps)]))"
    unfolding BaseResource_queryAll_def queryAll_loop_scripted [OF full short]
    by (simp add: ok_response_def queryBody_def batchSize_def del: upt_Suc)
next
  assume len: "length records = 50 * k"
  show "BaseResource_queryAll h (paged_server records) r body n
        = Some (Inr (JObj [(''success'', JBool True), (''payload'', JArr records)]), n + k + 1)"
    unfolding BaseResource_queryAll_def queryAll_loop_paged
    by (simp add: ok_response_def batchSize_def len)
qed

theorem queryAll_collects_pages_witness:
  "BaseResource_queryAll sample_host scripted campaign_resource (JObj [(''advertiser_id'', JNum 3)])
      ([http_ok (envelope (JArr (replicate 50 (JNum 1)))), http_ok (envelope (JArr [JNum 2])),
        http_ok (envelope (JArr [JNum 9]))], [])
     = Some (Inr (JObj [(''success'', JBool True),
                        (''payload'', JArr (replicate 50 (JNum 1) @ [JNum 2]))]),
             ([http_ok (envelope (JArr [JNum 9]))],
              [request_config ''GET'' ''/rest/campaign''
                 (body_only (JObj [(''advertiser_id'', JNum 3), (''rows'', JNum 50),
                                   (''offset'', JNum 0), (''sort_by'', JStr ''campaign_id'')])),
               request_config ''GET'' ''/rest/campaign''
                 (body_only (JObj [(''advertiser_id'', JNum 3), (''rows'', JNum 50),
                                   (''offset'', JNum 50), (''sort_by'', JStr ''campaign_id'')]))]))
   \<and> BaseResource_queryAll sample_host (paged_server (replicate 100 (JNum 1))) campaign_resource
       (JObj [(''advertiser_id'', JNum 3)]) 0
     = Some (Inr (JObj [(''success'', JBool True), (''payload'', JArr (replicate 100 (JNum 1)))]), 3)"
  using queryAll_collects_pages [of "[replicate 50 (JNum 1)]" "[JNum 2]" sample_host campaign_resource
          "JObj [(''advertiser_id'', JNum 3)]" "[http_ok (envelope (JArr [JNum 9]))]" "[]"
          "replicate 100 (JNum 1)" 2 0]
  by (simp add: campaign_resource_def)

section \<open>BaseResource.find\<close>

text \<open>
  Claim C5 says that \<open>find\<close> answers an empty result set with a structured failure
  (\<open>success: false\<close>). The code has no such branch: it answers \<open>success: true\<close> with an
  undefined payload. Here the remote side returns an empty payload for campaign 7.
\<close>

theorem find_empty_result_counterexample:
  "BaseResource_find sample_host scripted campaign_resource (JNum 7)
       ([http_ok (envelope (JArr []))], [])
     = (Inr (JObj [(''success'', JBool True), (''payload'', JUndef)]),
        ([], [JObj [(''method'', JStr ''GET''), (''url'', JStr ''/rest/campaign''),
                    (''headers'', JUndef), (''params'', JObj [(''campaign_id'', JNum 7)])]]))"
  by (simp add: BaseResource_find_def request_def request_config_def body_only_def scripted_def
        http_ok_def envelope_def campaign_resource_def toUpperCase_GET jor_def nullish_def
        ok_response_def)

lemma first_elem_JArr: "first_elem (JArr records) = (case records of [] \<Rightarrow> JUndef | x # xs \<Rightarrow> x)"
  by (cases records) simp_all

text \<open>
  Claim C5, amended. \<open>find(id)\<close> sends one GET to the resource's endpoint with the
  identity field set to \<open>id\<close>; when the API answers with an envelope that does not
  declare failure and whose payload is an array, \<open>find\<close> resolves (it does not throw) to
  \<open>{success: true, payload}\<close> where the payload is the first record of the array, and is
  undefined, \<open>success\<close> still being true, when the array is empty.
\<close>

theorem find_returns_first_record:
  assumes "ax (JObj [(''method'', JStr ''GET''), (''url'', JStr (endpoint r)),
                     (''headers'', JUndef), (''params'', JObj [(idField r, ident)])]) w
             = (Inr response, w')"
    and "jget response ''data'' = JObj d"
    and "jget (JObj d) ''success'' \<noteq> JBool False"
    and "jget (JObj d) ''payload'' = JArr records"
  shows "BaseResource_find h ax r ident w
           = (Inr (JObj [(''success'', JBool True),
                         (''payload'', (case records of [] \<Rightarrow> JUndef | x # xs \<Rightarrow> x))]), w')"
proof -
  have "\<not> nullish response"
    using assms(2) by (auto simp: nullish_def)
  then have "request h ax ''GET'' (endpoint r) (body_only (JObj [(idField r, ident)])) w
               = (Inr (JObj d), w')"
    using assms(1-3)
    by (simp add: request_def request_config_def body_only_def toUpperCase_GET jor_def nullish_def)
  then show ?thesis
    using assms(4) by (simp add: BaseResource_find_def ok_response_def first_elem_JArr)
qed

theorem find_returns_first_record_witness:
  "BaseResource_find sample_host scripted line_item_resource (JNum 4)
       ([http_ok (envelope (JArr [JObj [(''line_item_id'', JNum 4)], JObj [(''line_item_id'', JNum 5)]]))], [])
     = (Inr (JObj [(''success'', JBool True), (''payload'', JObj [(''line_item_id'', JNum 4)])]),
        ([], [JObj [(''method'', JStr ''GET''), (''url'', JStr ''/rest/line_item''),
                    (''headers'', JUndef), (''params'', JObj [(''line_item_id'', JNum 4)])]]))"
  using find_returns_first_record [of scripted line_item_resource "JNum 4"
          "([http_ok (envelope (JArr [JObj [(''line_item_id'', JNum 4)], JObj [(''line_item_id'', JNum 5)]]))], [])"
          "JObj [(''status'', JNum 200), (''data'', envelope (JArr [JObj [(''line_item_id'', JNum 4)], JObj [(''line_item_id'', JNum 5)]]))]"
          "([], [JObj [(''method'', JStr ''GET''), (''url'', JStr ''/rest/line_item''),
                    (''headers'', JUndef), (''params'', JObj [(''line_item_id'', JNum 4)])]])"
          "[(''success'', JBool True), (''payload'', JArr [JObj [(''line_item_id'', JNum 4)], JObj [(''line_item_id'', JNum 5)]])]"
          "[JObj [(''line_item_id'', JNum 4)], JObj [(''line_item_id'', JNum 5)]]" sample_host]
  by (simp add: scripted_def http_ok_def envelope_def line_item_resource_def)

section \<open>CreativeResource.create\<close>

text \<open>
  Claim C7 at the creative type \<open>'constructor'\<close>. The claim lets every unrecognised
  string through unchanged. \<open>typeMap\<close> is a plain object, so the lookup
  \<open>typeMap['constructor']\<close> finds the property every object inherits, the \<open>Object\<close>
  function, which is not \<open>undefined\<close>: the body sent carries that function under
  \<open>creative_type\<close> instead of the string. (The script is empty, so the request is
  refused; the log shows the body that was sent.)
\<close>

theorem creative_type_constructor_not_passed_through:
  "CreativeResource_create sample_host scripted
       (JObj [(''advertiser_id'', JNum 1), (''name'', JStr ''Ad''), (''type'', JStr ''constructor'')])
       ([], [])
     = (Inl (JErr ''script exhausted''),
        ([], [JObj [(''method'', JStr ''POST''), (''url'', JStr ''/rest/creative/strict''),
                    (''headers'', JUndef),
                    (''data'', JObj [(''advertiser_id'', JNum 1), (''creative_name'', JStr ''Ad''),
                                     (''creative_type'', JBuiltin ''Object'')]),
                    (''params'', JUndef)]]))"
  by code_simp

text \<open>
  What does hold for \<open>CreativeResource.create\<close>: a type given as a string is mapped
  without regard to case, display and banner to 0, video to 1, native to 2; every other
  string, the two inherited names apart, passes through unchanged; and the value goes
  under \<open>creative_type\<close> only, the \<open>type\<close> alias being deleted.
\<close>

lemma lower_char_not_upper: "lower_char c \<notin> set ''ABCDEFGHIJKLMNOPQRSTUVWXYZ''"
  by (simp add: lower_char_def)

lemma toLowerCase_no_upper: "c \<in> set (toLowerCase t) \<Longrightarrow> c \<notin> set ''ABCDEFGHIJKLMNOPQRSTUVWXYZ''"
  using lower_char_not_upper by (auto simp: toLowerCase_def)

lemma Object_prototype_get_lowered:
  assumes "toLowerCase t \<noteq> ''constructor''" and "toLowerCase t \<noteq> ''__proto__''"
  shows "Object_prototype_get (toLowerCase t) = JUndef"
proof -
  have ne: "toLowerCase t \<noteq> k" if "c \<in> set k" and "c \<in> set ''ABCDEFGHIJKLMNOPQRSTUVWXYZ''" for k c
    using that toLowerCase_no_upper [of c t] by auto
  have "toLowerCase t \<noteq> ''hasOwnProperty''" by (rule ne [of "CHR ''O''"]) simp_all
  moreover have "toLowerCase t \<noteq> ''isPrototypeOf''" by (rule ne [of "CHR ''P''"]) simp_all
  moreover have "toLowerCase t \<noteq> ''propertyIsEnumerable''" by (rule ne [of "CHR ''I''"]) simp_all
  moreover have "toLowerCase t \<noteq> ''toLocaleString''" by (rule ne [of "CHR ''L''"]) simp_all
  moreover have "toLowerCase t \<noteq> ''toString''" by (rule ne [of "CHR ''S''"]) simp_all
  moreover have "toLowerCase t \<noteq> ''valueOf''" by (rule ne [of "CHR ''O''"]) simp_all
  moreover have "toLowerCase t \<noteq> ''__defineGetter__''" by (rule ne [of "CHR ''G''"]) simp_all
  moreover have "toLowerCase t \<noteq> ''__defineSetter__''" by (rule ne [of "CHR ''S''"]) simp_all
  moreover have "toLowerCase t \<noteq> ''__lookupGetter__''" by (rule ne [of "CHR ''G''"]) simp_all
  moreover have "toLowerCase t \<noteq> ''__lookupSetter__''" by (rule ne [of "CHR ''S''"]) simp_all
  ultimately show ?thesis
    using assms by (simp add: Object_prototype_get_def)
qed

lemma convert_type_string:
  "convert_type (JStr t) =
     (if toLowerCase t = ''display'' \<or> toLowerCase t = ''banner'' then JNum 0
      else if toLowerCase t = ''video'' then JNum 1
      else if toLowerCase t = ''native'' then JNum 2
      else if toLowerCase t = ''constructor'' then JBuiltin ''Object''
      else if toLowerCase t = ''__proto__'' then JBuiltin ''Object.prototype''
      else JStr t)"
proof (cases "toLowerCase t \<in> {''display'', ''banner'', ''video'', ''native'', ''constructor'', ''__proto__''}")
  case True
  then show ?thesis
    by (auto simp: typeMap_lookup_def typeMap_def Object_prototype_get_def)
next
  case False
  then have "typeMap_lookup (toLowerCase t) = JUndef"
    using Object_prototype_get_lowered [of t] by (simp add: typeMap_lookup_def typeMap_def)
  with False show ?thesis by simp
qed

lemma creative_create_body_type:
  assumes "jget body ''creative_type'' = JUndef" and "jget body ''type'' = JStr t"
  shows "jget (JObj (creative_create_body body)) ''creative_type'' = convert_type (JStr t)
         \<and> jget (JObj (creative_create_body body)) ''type'' = JUndef"
  using assms
  by (simp add: creative_create_body_def Let_def update_conv' delete_conv' del: convert_type.simps)

section \<open>TargetingTemplateResource\<close>

text \<open>
  Claim C9. Targeting-template \<open>create\<close> answers every body with the fixed deprecation
  response \<open>{success: false, code: 410}\<close> and its message, touching nothing and throwing
  nothing. Targeting-template \<open>query\<close> never throws, and when the underlying request
  fails it answers \<open>{success: true, payload: []}\<close> with the deprecation message.
\<close>

theorem targeting_template_deprecated:
  "TargetingTemplateResource_create body w
     = (Inr (JObj [(''success'', JBool False),
                   (''message'', JStr ''Targeting templates are deprecated. Please use targeting expressions API directly.''),
                   (''code'', JNum 410)]), w)
   \<and> (request h ax ''GET'' ''/rest/targeting_template'' (body_only (jor flt (JObj []))) w
          = (Inl e, w')
        \<longrightarrow> TargetingTemplateResource_query h ax flt w
          = (Inr (JObj [(''success'', JBool True), (''payload'', JArr []),
                        (''message'', JStr ''Targeting templates are deprecated. Please use targeting expressions API directly.'')]), w'))
   \<and> (\<exists>response w''. TargetingTemplateResource_query h ax flt w = (Inr response, w''))"
proof (intro conjI impI)
  show "TargetingTemplateResource_create body w
     = (Inr (JObj [(''success'', JBool False),
                   (''message'', JStr ''Targeting templates are deprecated. Please use targeting expressions API directly.''),
                   (''code'', JNum 410)]), w)"
    by (simp add: TargetingTemplateResource_create_def deprecation_message_def)
next
  assume "request h ax ''GET'' ''/rest/targeting_template'' (body_only (jor flt (JObj []))) w
          = (Inl e, w')"
  then show "TargetingTemplateResource_query h ax flt w
          = (Inr (JObj [(''success'', JBool True), (''payload'', JArr []),
                        (''message'', JStr ''Targeting templates are deprecated. Please use targeting expressions API directly.'')]), w')"
    by (simp add: TargetingTemplateResource_query_def BaseResource_query_def
          targeting_template_resource_def deprecation_message_def)
next
  show "\<exists>response w''. TargetingTemplateResource_query h ax flt w = (Inr response, w'')"
    by (auto simp: TargetingTemplateResource_query_def split: prod.splits sum.splits)
qed

theorem targeting_template_deprecated_witness:
  "TargetingTemplateResource_query sample_host scripted (JObj [(''advertiser_id'', JNum 3)])
       ([Inl (JErr ''ECONNRESET'')], [])
     = (Inr (JObj [(''success'', JBool True), (''payload'', JArr []),
                   (''message'', JStr ''Targeting templates are deprecated. Please use targeting expressions API directly.'')]),
        ([], [JObj [(''method'', JStr ''GET''), (''url'', JStr ''/rest/targeting_template''),
                    (''headers'', JUndef), (''params'', JObj [(''advertiser_id'', JNum 3)])]]))"
  using targeting_template_deprecated [of JUndef "([Inl (JErr ''ECONNRESET'')], [])" sample_host scripted
          "JObj [(''advertiser_id'', JNum 3)]" "JErr ''ECONNRESET''"
          "([], [JObj [(''method'', JStr ''GET''), (''url'', JStr ''/rest/targeting_template''),
                    (''headers'', JUndef), (''params'', JObj [(''advertiser_id'', JNum 3)])]])"]
  by (simp add: request_def request_config_def body_only_def scripted_def toUpperCase_GET jor_def
        request_catch_def nullish_def)

section \<open>bulkUpdateCampaignStatus\<close>

lemma bulkUpdate_loop_counts:
  "bulkUpdate_loop c active ids (u, f) w = ((u', f'), w') \<Longrightarrow> u' + f' = u + f + length ids"
proof (induction ids arbitrary: u f w)
  case Nil
  then show ?case by simp
next
  case (Cons campaignId ids)
  then show ?case
    by (auto split: prod.splits sum.splits if_splits)
qed

lemma scripted_call_pop:
  "scripted_call name args (out # rest, tr) = (out, (rest, tr @ [(name, args)]))"
  by (simp add: scripted_call_def)

lemma bulkUpdate_loop_scripted:
  "length outs = length ids \<Longrightarrow>
   bulkUpdate_loop scripted_client active ids (u, f) (outs @ rest, tr)
     = ((u + length (filter edit_succeeded outs),
         f + length (filter (\<lambda>out. \<not> edit_succeeded out) outs)),
        (rest, tr @ map (\<lambda>ident. (''campaigns.edit'', [ident, JObj [(''active'', active)]])) ids))"
proof (induction ids arbitrary: outs u f tr)
  case Nil
  then show ?case by simp
next
  case (Cons campaignId ids)
  then obtain out outs' where outs: "outs = out # outs'" and len: "length outs' = length ids"
    by (cases outs) auto
  show ?case
    unfolding outs
    by (cases out)
       (simp_all add: scripted_client_def scripted_call_pop edit_succeeded_def
          Cons.IH [OF len, unfolded scripted_client_def])
qed

text \<open>
  Claim C8. \<open>bulkUpdateCampaignStatus(ids, active)\<close> always resolves to
  \<open>{success: true, payload: {updated, failed}}\<close> with \<open>updated + failed\<close> the number of
  ids, whatever the edits do (first conjunct, for every client). Against every sequence
  of edit outcomes, thrown or returned (second conjunct), it edits each id once, in the
  order given, with the body \<open>{active}\<close>, goes on after every failure, and counts as
  updated the edits that returned a response with a truthy \<open>success\<close> and as failed all
  the others.
\<close>

theorem bulkUpdateCampaignStatus_counts:
  "(\<exists>updated failed w'.
       bulkUpdateCampaignStatus c campaignIds active w
         = (Inr (JObj [(''success'', JBool True),
                       (''payload'', JObj [(''updated'', JNum (of_nat updated)),
                                           (''failed'', JNum (of_nat failed))])]), w')
       \<and> updated + failed = length campaignIds)
   \<and> (length outs = length campaignIds \<longrightarrow>
        bulkUpdateCampaignStatus scripted_client campaignIds active (outs @ rest, tr)
          = (Inr (JObj [(''success'', JBool True),
                        (''payload'',
                           JObj [(''updated'', JNum (of_nat (length (filter edit_succeeded outs)))),
                                 (''failed'', JNum (of_nat (length (filter (\<lambda>out. \<not> edit_succeeded out) outs))))])]),
             (rest, tr @ map (\<lambda>ident. (''campaigns.edit'', [ident, JObj [(''active'', active)]]))
                          campaignIds)))"
proof (intro conjI impI)
  obtain u f w' where run: "bulkUpdate_loop c active campaignIds (0, 0) w = ((u, f), w')"
    by (metis surj_pair)
  from bulkUpdate_loop_counts [OF run] have "u + f = length campaignIds" by simp
  with run show "\<exists>updated failed w'.
       bulkUpdateCampaignStatus c campaignIds active w
         = (Inr (JObj [(''success'', JBool True),
                       (''payload'', JObj [(''updated'', JNum (of_nat updated)),
                                           (''failed'', JNum (of_nat failed))])]), w')
       \<and> updated + failed = length campaignIds"
    by (simp add: bulkUpdateCampaignStatus_def)
next
  assume "length outs = length campaignIds"
  then show "bulkUpdateCampaignStatus scripted_client campaignIds active (outs @ rest, tr)
          = (Inr (JObj [(''success'', JBool True),
                        (''payload'',
                           JObj [(''updated'', JNum (of_nat (length (filter edit_succeeded outs)))),
                                 (''failed'', JNum (of_nat (length (filter (\<lambda>out. \<not> edit_succeeded out) outs))))])]),
             (rest, tr @ map (\<lambda>ident. (''campaigns.edit'', [ident, JObj [(''active'', active)]]))
                          campaignIds))"
    by (simp add: bulkUpdateCampaignStatus_def bulkUpdate_loop_scripted)
qed

theorem bulkUpdateCampaignStatus_counts_witness:
  "bulkUpdateCampaignStatus scripted_client [JNum 11, JNum 12, JNum 13] (JBool False)
       ([Inr (JObj [(''success'', JBool True), (''payload'', JObj [(''campaign_id'', JNum 11)])]),
         Inl (JErr ''Request failed with status code 500''),
         Inr (JObj [(''success'', JBool False), (''code'', JNum 400), (''message'', JStr ''Not found'')])], [])
     = (Inr (JObj [(''success'', JBool True),
                   (''payload'', JObj [(''updated'', JNum 1), (''failed'', JNum 2)])]),
        ([], [(''campaigns.edit'', [JNum 11, JObj [(''active'', JBool False)]]),
              (''campaigns.edit'', [JNum 12, JObj [(''active'', JBool False)]]),
              (''campaigns.edit'', [JNum 13, JObj [(''active'', JBool False)]])]))"
  using bulkUpdateCampaignStatus_counts [of scripted_client "[JNum 11, JNum 12, JNum 13]" "JBool False"
          "([], [])"
          "[Inr (JObj [(''success'', JBool True), (''payload'', JObj [(''campaign_id'', JNum 11)])]),
            Inl (JErr ''Request failed with status code 500''),
            Inr (JObj [(''success'', JBool False), (''code'', JNum 400), (''message'', JStr ''Not found'')])]"
          "[]" "[]"]
  by (simp add: edit_succeeded_def nullish_def)

section \<open>The session: single flight, renewal, clearing the handle\<close>

lemma authenticate_calls_joined:
  "authPromise s = Some p \<Longrightarrow> authenticate_calls n s = (replicate n p, s)"
  by (induction n) (simp_all add: authenticate_enter_def)

lemma auth_run_bound:
  "auth_started (auth_run es s) + (if authPromise (auth_run es s) = None then 1 else 0)
     \<le> auth_started s + (if authPromise s = None then 1 else 0) + count_list es Settle"
proof (induction es arbitrary: s)
  case Nil
  show ?case by simp
next
  case (Cons e es)
  have step: "auth_started (auth_step e s) + (if authPromise (auth_step e s) = None then 1 else 0)
     \<le> auth_started s + (if authPromise s = None then 1 else 0) + (if e = Settle then 1 else 0)"
    by (cases e) (auto simp: authenticate_enter_def authenticate_finally_def split: option.splits)
  show ?case
    using Cons.IH [of "auth_step e s"] step by (cases e) auto
qed

lemma authenticate_one_login_request:
  assumes "authPromise s = None"
  shows "snd (net (snd (authenticate h scripted s)))
           = snd (net s) @ [request_interceptor s (login_config (creds s))]"
  using assms
  apply (simp add: authenticate.simps authenticate_enter_def performAuthentication.simps)
  apply (subst axiosInstance_request.simps)
  apply (simp add: scripted_def request_interceptor_def)
  apply (auto simp: response_fulfilled_def authenticate.simps authenticate_enter_def
      authenticate_finally_def
      split: list.splits sum.splits prod.splits outcome.splits jv.splits if_splits)
  done

lemma scripted_pop: "scripted c (out # rest, tr) = (out, (rest, tr @ [c]))"
  by (simp add: scripted_def)

lemma request_interceptor_cong:
  "sessionCookies s = sessionCookies t \<Longrightarrow> request_interceptor s config = request_interceptor t config"
  by (simp add: request_interceptor_def)

lemma request_interceptor_frame:
  "request_interceptor (s\<lparr>net := n\<rparr>) = request_interceptor s"
  "request_interceptor (s\<lparr>authPromise := p\<rparr>) = request_interceptor s"
  "request_interceptor (s\<lparr>auth_started := k\<rparr>) = request_interceptor s"
  "request_interceptor (authenticate_finally s) = request_interceptor s"
  by (simp_all add: request_interceptor_def fun_eq_iff authenticate_finally_def)




text \<open>
  Claim C2. First conjunct: \<open>n + 1\<close> calls of \<open>authenticate()\<close> made while none has
  settled, the first of them with no authentication in flight, all receive the same
  promise, and exactly one of them calls \<open>performAuthentication\<close>. Second conjunct: in
  every interleaving of calls and settlings, the number of authentication attempts
  started is at most one more than the number of attempts settled, so no two are ever
  in flight together. Third conjunct: an attempt that is started sends exactly one
  request, the login POST, whatever the remote side answers.
\<close>

theorem single_flight_authentication:
  "(authPromise s = None \<longrightarrow>
      authenticate_calls (Suc n) s
        = (replicate (Suc n) (auth_started s),
           s\<lparr>authPromise := Some (auth_started s), auth_started := Suc (auth_started s)\<rparr>))
   \<and> (authPromise s = None \<longrightarrow>
        auth_started (auth_run es s) \<le> Suc (auth_started s + count_list es Settle))
   \<and> (authPromise t = None \<longrightarrow>
        snd (net (snd (authenticate h scripted t)))
          = snd (net t) @ [request_interceptor t (login_config (creds t))])"
proof (intro conjI impI)
  assume idle: "authPromise s = None"
  show "authenticate_calls (Suc n) s
        = (replicate (Suc n) (auth_started s),
           s\<lparr>authPromise := Some (auth_started s), auth_started := Suc (auth_started s)\<rparr>)"
    using idle
    by (simp add: authenticate_enter_def authenticate_calls_joined)
  show "auth_started (auth_run es s) \<le> Suc (auth_started s + count_list es Settle)"
    using auth_run_bound [of es s] idle by (simp split: if_splits)
next
  assume "authPromise t = None"
  then show "snd (net (snd (authenticate h scripted t)))
          = snd (net t) @ [request_interceptor t (login_config (creds t))]"
    by (rule authenticate_one_login_request)
qed

theorem single_flight_authentication_witness:
  "authenticate_calls (Suc 2) (sample_session [])
     = ([0, 0, 0], (sample_session [])\<lparr>authPromise := Some 0, auth_started := Suc 0\<rparr>)
   \<and> auth_started (auth_run [Call, Call, Settle, Call, Call] (sample_session [])) \<le> 2
   \<and> snd (net (snd (authenticate sample_host scripted (sample_session [Inl unauthorized_error]))))
       = [JObj [(''method'', JStr ''post''), (''url'', JStr ''/rest/authenticate''),
                (''data'', JObj [(''email'', JStr ''ops@example.com''),
                                 (''password'', JStr ''secret''),
                                 (''keep_logged_in'', JBool True)]),
                (''headers'', JObj [(''Cookie'', JStr ''sid=old'')])]]"
  using single_flight_authentication [of "sample_session []" 2 "[Call, Call, Settle, Call, Call]"
          "sample_session [Inl unauthorized_error]" sample_host]
  by (simp add: sample_session_def request_interceptor_def login_config_def numeral_3_eq_3)






text \<open>
  The claim speaks of calls that settle. One call does not: when the login POST itself
  is answered with status 401, the response interceptor calls \<open>authenticate()\<close>, receives
  the stored promise of the very attempt it belongs to, and waits for it. The handle
  stays set.
\<close>

lemma login_unauthorized_never_settles:
  fixes s :: "script session"
  assumes idle: "authPromise s = None"
    and script: "net s = (Inl e # rest, tr)"
    and unauthorized: "jget (jget e ''response'') ''status'' = JNum 401"
  shows "authenticate h scripted s =
     (Pending, s\<lparr>authPromise := Some (auth_started s), auth_started := Suc (auth_started s),
                 net := (rest, tr @ [request_interceptor s (login_config (creds s))])\<rparr>)"
proof -
  let ?sA0 = "s\<lparr>authPromise := Some (auth_started s), auth_started := Suc (auth_started s)\<rparr>"
  let ?sB = "?sA0\<lparr>net := (rest, tr @ [request_interceptor s (login_config (creds s))])\<rparr>"
  have e: "\<not> nullish e"
    using unauthorized by (auto simp: nullish_def)
  have joined: "authenticate h scripted ?sB = (Pending, ?sB)"
    by (simp add: authenticate.simps authenticate_enter_def)
  have fresh: "\<not> truthy (jget (request_interceptor s (login_config (creds s))) ''_retry'')"
    by (simp add: jget_request_interceptor_retry login_config_def)
  have login_req: "axiosInstance_request h scripted (login_config (creds s)) ?sA0 = (Pending, ?sB)"
    using e unauthorized fresh joined
    by (subst axiosInstance_request.simps)
       (simp add: script scripted_pop request_interceptor_frame)
  have perform: "performAuthentication h scripted ?sA0 = (Pending, ?sB)"
    using login_req by (simp add: performAuthentication.simps)
  show ?thesis
    using idle perform by (simp add: authenticate.simps authenticate_enter_def)
qed

end
